theory Spec2Isabelle
  imports Main "HOL-Library.Word"
begin

section \<open>JavaScript strings and the string built-ins the scraper calls\<close>

text \<open>
  A JavaScript string is modelled as the list of its UTF-16 code units, for strings whose
  code units are below 256 (the Latin-1 range), so that a \<^typ>\<open>char\<close> is one code unit and
  \<^const>\<open>length\<close> is the \<^verbatim>\<open>.length\<close> of the source. On that range the built-ins below follow
  ECMAScript: \<^verbatim>\<open>toLowerCase\<close>, \<^verbatim>\<open>trim\<close>, \<^verbatim>\<open>includes\<close> and the character classes
  \<^verbatim>\<open>\s\<close> and \<^verbatim>\<open>\d\<close>. The texts of the pages and the skills are such strings. The search
  keyword, the one string that is percent-encoded, has a wider alphabet of its own, below.
\<close>

definition code :: "char \<Rightarrow> nat" where
  "code c = of_char c"

definition isUpper :: "char \<Rightarrow> bool" where
  "isUpper c = ((65 \<le> code c \<and> code c \<le> 90) \<or> (192 \<le> code c \<and> code c \<le> 222 \<and> code c \<noteq> 215))"

definition lowerChar :: "char \<Rightarrow> char" where
  "lowerChar c = (if isUpper c then char_of (code c + 32) else c)"

definition toLowerCase :: "string \<Rightarrow> string" where
  "toLowerCase s = map lowerChar s"

definition isSpace :: "char \<Rightarrow> bool" where
  \<comment> \<open>\<^verbatim>\<open>\s\<close>, and what \<^verbatim>\<open>trim\<close> strips: TAB, LF, VT, FF, CR, SP, NBSP\<close>
  "isSpace c = ((9 \<le> code c \<and> code c \<le> 13) \<or> code c = 32 \<or> code c = 160)"

definition isDigit :: "char \<Rightarrow> bool" where
  \<comment> \<open>\<^verbatim>\<open>\d\<close>\<close>
  "isDigit c = (48 \<le> code c \<and> code c \<le> 57)"

definition trim :: "string \<Rightarrow> string" where
  "trim s = rev (dropWhile isSpace (rev (dropWhile isSpace s)))"

fun startsWith :: "string \<Rightarrow> string \<Rightarrow> bool" where
  "startsWith s [] = True"
| "startsWith [] (p # ps) = False"
| "startsWith (c # cs) (p # ps) = (c = p \<and> startsWith cs ps)"

fun includes_str :: "string \<Rightarrow> string \<Rightarrow> bool" where
  \<comment> \<open>\<^verbatim>\<open>s.includes(t)\<close>\<close>
  "includes_str [] t = (t = [])"
| "includes_str (c # cs) t = (startsWith (c # cs) t \<or> includes_str cs t)"

fun digits :: "nat \<Rightarrow> string" where
  "digits n = (if n < 10 then [char_of (48 + n)] else digits (n div 10) @ [char_of (48 + n mod 10)])"

declare digits.simps [simp del]


section \<open>Numbers in template literals\<close>

text \<open>
  The Numbers the scraper renders in a template literal are the page number and the
  experience bounds. They are modelled where they are integers of magnitude at most
  \<open>2\<^sup>5\<^sup>3\<close>: each such integer is a Number, and a template literal renders it as its
  decimal digits, with a minus sign when negative.
\<close>

typedef integerNumber = "{i :: int. - 9007199254740992 \<le> i \<and> i \<le> 9007199254740992}"
  morphisms intOf numberOf
  by (rule exI [of _ 0]) simp

definition numberToString :: "integerNumber \<Rightarrow> string" where
  "numberToString n =
     (if intOf n < 0 then CHR ''-'' # digits (nat (- intOf n)) else digits (nat (intOf n)))"

definition pageNumber :: "nat \<Rightarrow> integerNumber" where
  \<comment> \<open>the loop counter as a Number, which \<^verbatim>\<open>pageNum++\<close> does not take beyond \<open>2\<^sup>5\<^sup>3\<close>\<close>
  "pageNumber n = numberOf (int (min n 9007199254740992))"


section \<open>The search keyword and its percent-encoding\<close>

text \<open>
  A code unit of the keyword is a code unit below 256 or a low surrogate, \<^verbatim>\<open>U+DC00\<close> plus
  a ten-bit offset. A low surrogate is a lone surrogate wherever it stands in such a
  string, as no high surrogate can precede it. \<^verbatim>\<open>toLowerCase\<close> leaves it as it is,
  \<^verbatim>\<open>\s\<close> does not match it, and \<^verbatim>\<open>encodeURIComponent\<close> throws a \<^verbatim>\<open>URIError\<close> on it, with
  the message of V8.
\<close>

datatype codeUnit = Latin1 char | LowSurrogate "10 word"

datatype error = Error string | URIError string

definition errorMessage :: "error \<Rightarrow> string" where
  \<comment> \<open>\<^verbatim>\<open>error.message\<close>\<close>
  "errorMessage e = (case e of Error message \<Rightarrow> message | URIError message \<Rightarrow> message)"

definition isSurrogate :: "codeUnit \<Rightarrow> bool" where
  "isSurrogate u = (case u of Latin1 c \<Rightarrow> False | LowSurrogate w \<Rightarrow> True)"

definition isSpaceUnit :: "codeUnit \<Rightarrow> bool" where
  \<comment> \<open>\<^verbatim>\<open>\s\<close>\<close>
  "isSpaceUnit u = (case u of Latin1 c \<Rightarrow> isSpace c | LowSurrogate w \<Rightarrow> False)"

definition lowerUnit :: "codeUnit \<Rightarrow> codeUnit" where
  "lowerUnit u = (case u of Latin1 c \<Rightarrow> Latin1 (lowerChar c) | LowSurrogate w \<Rightarrow> LowSurrogate w)"

definition toLowerCase_units :: "codeUnit list \<Rightarrow> codeUnit list" where
  \<comment> \<open>\<^verbatim>\<open>keyword.toLowerCase()\<close>\<close>
  "toLowerCase_units s = map lowerUnit s"

function replaceSpaceRuns :: "codeUnit list \<Rightarrow> codeUnit list" where
  \<comment> \<open>\<^verbatim>\<open>s.replace(/\s+/g, '-')\<close>: leftmost match first, the match greedy, then on from its end\<close>
  "replaceSpaceRuns [] = []"
| "replaceSpaceRuns (c # cs) =
     (if isSpaceUnit c then Latin1 CHR ''-'' # replaceSpaceRuns (dropWhile isSpaceUnit cs)
      else c # replaceSpaceRuns cs)"
  by pat_completeness auto
termination
  by (relation "measure length") (auto simp: less_Suc_eq_le length_dropWhile_le)

definition hexDigit :: "nat \<Rightarrow> char" where
  "hexDigit n = (if n < 10 then char_of (48 + n) else char_of (55 + n))"

definition percent :: "nat \<Rightarrow> string" where
  \<comment> \<open>one octet as \<^verbatim>\<open>%XX\<close>, upper-case hexadecimal\<close>
  "percent b = [CHR ''%'', hexDigit (b div 16), hexDigit (b mod 16)]"

definition isUnreserved :: "char \<Rightarrow> bool" where
  \<comment> \<open>the characters \<^verbatim>\<open>encodeURIComponent\<close> leaves as they are: letters, digits and - _ . ! ~ * ' ( )\<close>
  "isUnreserved c =
     ((65 \<le> code c \<and> code c \<le> 90) \<or> (97 \<le> code c \<and> code c \<le> 122) \<or> isDigit c \<or>
      code c \<in> {45, 95, 46, 33, 126, 42, 39, 40, 41})"

definition encodeUnit :: "char \<Rightarrow> string" where
  \<comment> \<open>the UTF-8 octets of one code unit below 256, each escaped\<close>
  "encodeUnit c =
     (if isUnreserved c then [c]
      else if code c < 128 then percent (code c)
      else percent (192 + code c div 64) @ percent (128 + code c mod 64))"

fun encodeURIComponent :: "codeUnit list \<Rightarrow> error + string" where
  \<comment> \<open>the result is ASCII; \<^const>\<open>Inl\<close> is the error thrown\<close>
  "encodeURIComponent [] = Inr []"
| "encodeURIComponent (Latin1 c # rest) =
     (case encodeURIComponent rest of
        Inl e \<Rightarrow> Inl e
      | Inr escaped \<Rightarrow> Inr (encodeUnit c @ escaped))"
| "encodeURIComponent (LowSurrogate w # rest) = Inl (URIError ''URI malformed'')"


section \<open>The skill matcher\<close>

text \<open>
  \<^verbatim>\<open>matchSkills(jobSkills, configSkills)\<close>. An argument that is \<^verbatim>\<open>null\<close> or
  \<^verbatim>\<open>undefined\<close> is \<^const>\<open>None\<close>.
\<close>

definition matchSkills :: "string list option \<Rightarrow> string list option \<Rightarrow> string list" where
  "matchSkills jobSkills configSkills =
     (case configSkills of
        None \<Rightarrow> []
      | Some cs \<Rightarrow>
          if length cs = 0 then []
          else (case jobSkills of
                  None \<Rightarrow> []
                | Some js \<Rightarrow>
                    if length js = 0 then []
                    else
                      (let normalizedConfigSkills = map (\<lambda>s. trim (toLowerCase s)) cs
                       in filter
                            (\<lambda>skill.
                               let normalizedSkill = trim (toLowerCase skill)
                               in list_ex
                                    (\<lambda>configSkill.
                                       includes_str normalizedSkill configSkill \<or>
                                       includes_str configSkill normalizedSkill)
                                    normalizedConfigSkills)
                            js)))"


section \<open>The search URL\<close>

record experience_bounds =
  exp_min :: "integerNumber option"
  exp_max :: "integerNumber option"

text \<open>
  \<^verbatim>\<open>buildSearchUrl(keyword, pageNum, experience)\<close>. The filter object is \<^const>\<open>None\<close> when it
  is \<^verbatim>\<open>null\<close>; a bound is \<^const>\<open>None\<close> when it is \<^verbatim>\<open>undefined\<close>. The result is \<^const>\<open>Inl\<close>
  the error when one of the two calls of \<^verbatim>\<open>encodeURIComponent\<close> throws.
\<close>

definition buildSearchUrl ::
  "codeUnit list \<Rightarrow> integerNumber \<Rightarrow> experience_bounds option \<Rightarrow> error + string" where
  "buildSearchUrl keyword pageNum experience =
     (case encodeURIComponent (replaceSpaceRuns (toLowerCase_units keyword)) of
        Inl e \<Rightarrow> Inl e
      | Inr encodedKeyword \<Rightarrow>
          (case encodeURIComponent keyword of
             Inl e \<Rightarrow> Inl e
           | Inr searchParam \<Rightarrow>
               (let url = (if intOf pageNum = 1
                           then ''https://www.naukri.com/'' @ encodedKeyword @ ''-jobs?k='' @ searchParam
                           else ''https://www.naukri.com/'' @ encodedKeyword @ ''-jobs-'' @
                                numberToString pageNum @ ''?k='' @ searchParam)
                in case experience of
                     None \<Rightarrow> Inr url
                   | Some e \<Rightarrow>
                       if exp_min e \<noteq> None \<or> exp_max e \<noteq> None then
                         (let url1 = (case exp_min e of
                                        None \<Rightarrow> url
                                      | Some m \<Rightarrow> url @ ''&niyoMinExp='' @ numberToString m);
                              url2 = (case exp_max e of
                                        None \<Rightarrow> url1
                                      | Some m \<Rightarrow> url1 @ ''&niyoMaxExp='' @ numberToString m)
                          in Inr url2)
                       else Inr url)))"


section \<open>The listing pass\<close>

text \<open>
  What the selectors of \<^verbatim>\<open>extractJobCards\<close> find in one listing card: for each
  \<^verbatim>\<open>querySelector\<close> the \<^verbatim>\<open>textContent\<close> of the element found (the \<^verbatim>\<open>href\<close> for the link),
  \<^const>\<open>None\<close> when there is no such element; for \<^verbatim>\<open>querySelectorAll\<close> the texts of the
  elements; and the reading of the clock when the card is processed.
\<close>

record listingCard =
  titleElement :: "string option"
  linkElement :: "string option"
  companyElement :: "string option"
  locationElement :: "string option"
  expElement :: "string option"
  salaryElement :: "string option"
  skillElements :: "string list"
  descElement :: "string option"
  dateElement :: "string option"
  isoClock :: string

record jobListing =
  title :: string
  company :: string
  location :: string
  experience :: string
  salary :: string
  skills :: "string list"
  description :: string
  jobUrl :: string
  postedDate :: string
  searchKeyword :: "codeUnit list"
  scrapedAt :: string

definition textOr :: "string option \<Rightarrow> string \<Rightarrow> string" where
  \<comment> \<open>\<^verbatim>\<open>el?.textContent?.trim() || dflt\<close>\<close>
  "textOr el dflt = (case el of None \<Rightarrow> dflt | Some t \<Rightarrow> if trim t = [] then dflt else trim t)"

definition extractCard ::
  "codeUnit list \<Rightarrow> jobListing list \<Rightarrow> listingCard \<Rightarrow> jobListing list" where
  \<comment> \<open>the body of \<^verbatim>\<open>jobCards.forEach\<close>, on the array \<^verbatim>\<open>jobs\<close>\<close>
  "extractCard keyword jobs cardEl =
     (let title = textOr (titleElement cardEl) [];
          jobUrl = (case linkElement cardEl of None \<Rightarrow> [] | Some href \<Rightarrow> href);
          company = textOr (companyElement cardEl) [];
          location = textOr (locationElement cardEl) ''Not specified'';
          experience = textOr (expElement cardEl) ''Not specified'';
          salary = textOr (salaryElement cardEl) ''Not disclosed'';
          skills = filter (\<lambda>t. t \<noteq> []) (map trim (skillElements cardEl));
          description = textOr (descElement cardEl) [];
          postedDate = textOr (dateElement cardEl) ''Not specified''
      in if title \<noteq> [] \<and> company \<noteq> [] \<and> jobUrl \<noteq> [] then
           jobs @ [\<lparr>title = title, company = company, location = location,
                    experience = experience, salary = salary, skills = skills,
                    description = description, jobUrl = jobUrl, postedDate = postedDate,
                    searchKeyword = keyword, scrapedAt = isoClock cardEl\<rparr>]
         else jobs)"

definition extractJobCards :: "codeUnit list \<Rightarrow> listingCard list \<Rightarrow> jobListing list" where
  "extractJobCards keyword jobCards = foldl (extractCard keyword) [] jobCards"


section \<open>The detail pass\<close>

record jobDetail =
  fullDescription :: string
  keySkills :: "string list"
  industryTypes :: "string list"
  jobPostedAt :: string
  salaryOffered :: string
  totalVacancy :: string

definition defaultDetails :: jobDetail where
  "defaultDetails =
     \<lparr>fullDescription = [], keySkills = [], industryTypes = [],
      jobPostedAt = ''Not specified'', salaryOffered = ''Not disclosed'',
      totalVacancy = ''Not specified''\<rparr>"

text \<open>
  What the queries of the detail page's \<^verbatim>\<open>evaluate\<close> callback return: one entry per
  selector of each selector list, in the list's order; for each label element its
  \<^verbatim>\<open>textContent\<close> and that of the element \<^verbatim>\<open>siblingOrValue\<close> (\<^const>\<open>None\<close> when the label
  has no parent); for each detail section the text of its heading (\<^const>\<open>None\<close> without one)
  and the texts of its value elements.
\<close>

record detailDom =
  descCandidates :: "string option list"
  skillCandidates :: "string list list"
  allLabels :: "(string \<times> string option) list"
  salaryCandidates :: "string option list"
  dateCandidates :: "string list list"
  infoSpans :: "string list"
  detailSections :: "(string option \<times> string list) list"

fun pickDescription :: "string option list \<Rightarrow> string \<Rightarrow> string" where
  "pickDescription [] cur = cur"
| "pickDescription (el # rest) cur =
     (case el of
        None \<Rightarrow> pickDescription rest cur
      | Some t \<Rightarrow> if length (trim t) > 50 then trim t else pickDescription rest cur)"

definition setAdd :: "string list \<Rightarrow> string \<Rightarrow> string list" where
  \<comment> \<open>\<^verbatim>\<open>Set.prototype.add\<close> on a set kept in insertion order\<close>
  "setAdd s x = (if x \<in> set s then s else s @ [x])"

fun collectSkills :: "string list list \<Rightarrow> string list" where
  "collectSkills [] = []"
| "collectSkills (elements # rest) =
     (if length elements > 0 then
        foldl (\<lambda>skillSet el.
                 let text = trim el
                 in if text \<noteq> [] \<and> length text < 100 then setAdd skillSet text else skillSet)
              [] elements
      else collectSkills rest)"

fun splitOn :: "(char \<Rightarrow> bool) \<Rightarrow> string \<Rightarrow> string list" where
  \<comment> \<open>\<^verbatim>\<open>s.split(/[...]/)\<close> for a class of single characters\<close>
  "splitOn sep [] = [[]]"
| "splitOn sep (c # cs) =
     (let r = splitOn sep cs in if sep c then [] # r else (c # hd r) # tl r)"

definition matchDigits :: "string \<Rightarrow> string option" where
  \<comment> \<open>\<^verbatim>\<open>s.match(/\d+/)\<close>: the leftmost run of digits, as long as it goes\<close>
  "matchDigits s =
     (let r = dropWhile (\<lambda>c. \<not> isDigit c) s
      in if r = [] then None else Some (takeWhile isDigit r))"

definition openingsAt :: "string \<Rightarrow> string option" where
  \<comment> \<open>\<^verbatim>\<open>(\d+)\s*openings?\<close>, ignoring case, matched at the start of \<open>s\<close>: group 1\<close>
  "openingsAt s =
     (let ds = takeWhile isDigit s;
          rest = dropWhile isSpace (dropWhile isDigit s)
      in if ds \<noteq> [] \<and> startsWith (toLowerCase rest) ''opening'' then Some ds else None)"

fun matchOpenings :: "string \<Rightarrow> string option" where
  \<comment> \<open>\<^verbatim>\<open>s.match(/(\d+)\s*openings?/i)\<close>: group 1 of the leftmost match\<close>
  "matchOpenings [] = None"
| "matchOpenings (c # cs) =
     (case openingsAt (c # cs) of Some ds \<Rightarrow> Some ds | None \<Rightarrow> matchOpenings cs)"

definition scanLabel :: "jobDetail \<Rightarrow> string \<times> string option \<Rightarrow> jobDetail" where
  \<comment> \<open>the body of \<^verbatim>\<open>allLabels.forEach\<close>\<close>
  "scanLabel result label =
     (let labelText = toLowerCase (trim (fst label));
          valueText = textOr (snd label) [];
          result =
            (if includes_str labelText ''industry'' then
               result\<lparr>industryTypes :=
                 filter (\<lambda>s. s \<noteq> [] \<and> \<not> includes_str (toLowerCase s) ''industry'')
                   (map trim (splitOn (\<lambda>c. c = CHR '','' \<or> c = CHR ''/'') valueText))\<rparr>
             else result)
      in if includes_str labelText ''vacancy'' \<or> includes_str labelText ''opening'' then
           (case matchDigits valueText of
              Some vacancyMatch \<Rightarrow> result\<lparr>totalVacancy := vacancyMatch\<rparr>
            | None \<Rightarrow> result)
         else result)"

fun pickSalary :: "string option list \<Rightarrow> string \<Rightarrow> string" where
  "pickSalary [] cur = cur"
| "pickSalary (el # rest) cur =
     (case el of
        None \<Rightarrow> pickSalary rest cur
      | Some t \<Rightarrow>
          if trim t \<noteq> [] \<and> \<not> includes_str (toLowerCase (trim t)) ''not disclosed''
          then trim t else pickSalary rest cur)"

definition scanDate :: "jobDetail \<Rightarrow> string \<Rightarrow> jobDetail" where
  "scanDate result el =
     (let text = toLowerCase (trim el)
      in if includes_str text ''ago'' \<or> includes_str text ''posted'' \<or> includes_str text ''day'' \<or>
            includes_str text ''today'' \<or> includes_str text ''just now''
         then result\<lparr>jobPostedAt := trim el\<rparr> else result)"

definition scanOpenings :: "jobDetail \<Rightarrow> string \<Rightarrow> jobDetail" where
  \<comment> \<open>the body of \<^verbatim>\<open>infoSpans.forEach\<close>\<close>
  "scanOpenings result el =
     (let text = trim el
      in if includes_str (toLowerCase text) ''opening'' \<and> list_ex isDigit text \<and> length text < 30 then
           (case matchOpenings text of
              Some m \<Rightarrow> result\<lparr>totalVacancy := m\<rparr>
            | None \<Rightarrow> result)
         else result)"

definition scanSection :: "jobDetail \<Rightarrow> string option \<times> string list \<Rightarrow> jobDetail" where
  \<comment> \<open>the body of \<^verbatim>\<open>detailSections.forEach\<close>\<close>
  "scanSection result section =
     (let headText = (case fst section of None \<Rightarrow> [] | Some h \<Rightarrow> toLowerCase (trim h))
      in if includes_str headText ''industry'' then
           foldl (\<lambda>result v.
                    let t = trim v
                    in if t \<noteq> [] \<and> length t < 100 \<and> \<not> includes_str (toLowerCase t) ''industry''
                       then result\<lparr>industryTypes := industryTypes result @ [t]\<rparr> else result)
                 result (snd section)
         else result)"

definition extractDetails :: "detailDom \<Rightarrow> jobDetail" where
  \<comment> \<open>the callback of \<^verbatim>\<open>detailPage.evaluate\<close>\<close>
  "extractDetails document =
     (let result = defaultDetails;
          result = result\<lparr>fullDescription := pickDescription (descCandidates document) (fullDescription result)\<rparr>;
          result = result\<lparr>keySkills := collectSkills (skillCandidates document)\<rparr>;
          result = foldl scanLabel result (allLabels document);
          result = result\<lparr>salaryOffered := pickSalary (salaryCandidates document) (salaryOffered result)\<rparr>;
          result = foldl scanDate result (concat (dateCandidates document));
          result = foldl scanOpenings result (infoSpans document);
          result = (if length (industryTypes result) = 0
                    then foldl scanSection result (detailSections document) else result)
      in result)"


section \<open>The detail enricher\<close>

text \<open>
  What the browser does during one call of \<^verbatim>\<open>scrapeJobDetails\<close>: whether each awaited
  call resolves (a rejected call throws into the \<^verbatim>\<open>catch\<close>), and the document the
  \<^verbatim>\<open>evaluate\<close> callback runs on (\<^const>\<open>None\<close> when \<^verbatim>\<open>evaluate\<close> rejects).
  \<open>setupOk\<close> stands for \<^verbatim>\<open>setUserAgent\<close> and \<^verbatim>\<open>setViewport\<close>, \<open>detailGotoOk\<close> for
  \<^verbatim>\<open>detailPage.goto\<close> (a navigation error or its 30 s timeout).
\<close>

record detailVisit =
  newPageOk :: bool
  setupOk :: bool
  detailGotoOk :: bool
  evaluated :: "detailDom option"
  closeOk :: bool

text \<open>The browser: the tabs opened by \<^verbatim>\<open>browser.newPage()\<close> that are not closed yet.\<close>

record browser =
  nextPageId :: nat
  openPages :: "nat list"

definition scrapeJobDetails :: "browser \<Rightarrow> string \<Rightarrow> detailVisit \<Rightarrow> jobDetail \<times> browser" where
  "scrapeJobDetails b url visit =
     (let details = defaultDetails
      in if \<not> newPageOk visit then (details, b)
         else
           (let detailPage = nextPageId b;
                b = b\<lparr>nextPageId := Suc detailPage, openPages := detailPage # openPages b\<rparr>
            in if \<not> setupOk visit then (details, b)
               else if \<not> detailGotoOk visit then (details, b)
               else
                 (case evaluated visit of
                    None \<Rightarrow> (details, b)
                  | Some document \<Rightarrow>
                      (let pageDetails = extractDetails document;
                           details = details\<lparr>fullDescription := fullDescription pageDetails,
                                              keySkills := keySkills pageDetails,
                                              industryTypes := industryTypes pageDetails,
                                              jobPostedAt := jobPostedAt pageDetails,
                                              salaryOffered := salaryOffered pageDetails,
                                              totalVacancy := totalVacancy pageDetails\<rparr>
                       in if closeOk visit
                          then (details, b\<lparr>openPages := removeAll detailPage (openPages b)\<rparr>)
                          else (details, b)))))"


section \<open>The pagination driver\<close>

text \<open>
  The job object after the enrichment loop. The six properties merged from the detail
  record carry the prefix \<open>job_\<close>, as \<^typ>\<open>jobDetail\<close> has the names already.
\<close>

record enrichedJob = jobListing +
  job_fullDescription :: string
  job_keySkills :: "string list"
  job_industryTypes :: "string list"
  job_jobPostedAt :: string
  job_salaryOffered :: string
  job_totalVacancy :: string
  matchedSkills :: "string list"
  experienceFilter :: string

record config =
  config_experience :: "experience_bounds option"
  config_skills :: "string list option"
  config_scrapeJobDetails :: "bool option"

definition orElse :: "string \<Rightarrow> string \<Rightarrow> string" where
  \<comment> \<open>\<^verbatim>\<open>s || d\<close> on strings\<close>
  "orElse s d = (if s = [] then d else s)"

definition experienceLabel :: "experience_bounds option \<Rightarrow> string" where
  "experienceLabel e =
     (case e of
        None \<Rightarrow> []
      | Some ex \<Rightarrow>
          (case exp_min ex of None \<Rightarrow> ''0'' | Some m \<Rightarrow> if intOf m = 0 then ''0'' else numberToString m) @
          ''-'' @
          (case exp_max ex of None \<Rightarrow> ''any'' | Some m \<Rightarrow> if intOf m = 0 then ''any'' else numberToString m) @
          '' yrs'')"

definition mergeDetails :: "string list \<Rightarrow> string \<Rightarrow> jobListing \<Rightarrow> jobDetail \<Rightarrow> enrichedJob" where
  \<comment> \<open>the body of the enrichment loop after \<^verbatim>\<open>scrapeJobDetails\<close> has returned\<close>
  "mergeDetails configSkills label job details =
     (let fullDesc = orElse (fullDescription details) [];
          keys = (if length (keySkills details) > 0 then keySkills details else skills job);
          industries = industryTypes details;
          posted = orElse (jobPostedAt details) (postedDate job);
          offered = orElse (salaryOffered details) (salary job);
          vacancy = orElse (totalVacancy details) ''Not specified'';
          allJobSkills = foldl setAdd [] (skills job @ keys)
      in jobListing.extend job
           (enrichedJob.fields fullDesc keys industries posted offered vacancy
              (matchSkills (Some allJobSkills) (Some configSkills)) label))"

definition withoutDetails :: "string list \<Rightarrow> string \<Rightarrow> jobListing \<Rightarrow> enrichedJob" where
  \<comment> \<open>the body of the loop taken when detail scraping is off\<close>
  "withoutDetails configSkills label job =
     jobListing.extend job
       (enrichedJob.fields [] (skills job) [] (postedDate job) (salary job) ''Not specified''
          (matchSkills (Some (skills job)) (Some configSkills)) label)"

fun enrichLoop ::
  "string list \<Rightarrow> string \<Rightarrow> (nat \<Rightarrow> string \<Rightarrow> detailVisit) \<Rightarrow> nat \<Rightarrow> jobListing list \<Rightarrow> browser \<Rightarrow>
   enrichedJob list \<times> browser" where
  "enrichLoop configSkills label visits i [] b = ([], b)"
| "enrichLoop configSkills label visits i (job # rest) b =
     (case scrapeJobDetails b (jobUrl job) (visits i (jobUrl job)) of
        (details, b1) \<Rightarrow>
          (case enrichLoop configSkills label visits (Suc i) rest b1 of
             (rest', b2) \<Rightarrow> (mergeDetails configSkills label job details # rest', b2)))"

text \<open>
  What the browser does on one search page: the message of the error \<^verbatim>\<open>page.goto\<close>
  rejects with (\<^const>\<open>None\<close> when it resolves), whether \<^verbatim>\<open>waitForSelector\<close> resolves
  within its timeout, what \<^verbatim>\<open>page.evaluate\<close> in \<^verbatim>\<open>extractJobCards\<close> sees (\<^const>\<open>Inl\<close> the
  message when it rejects), and the detail visit of the \<open>i\<close>-th job, to its URL. The
  loop asks for the \<open>n\<close>-th page by the URL it has built.
\<close>

record searchVisit =
  gotoError :: "string option"
  cardsAppear :: bool
  evaluatedCards :: "string + listingCard list"
  detailVisits :: "nat \<Rightarrow> string \<Rightarrow> detailVisit"

definition catchPage ::
  "nat \<Rightarrow> string \<Rightarrow> enrichedJob list \<Rightarrow> browser \<Rightarrow> (error + enrichedJob list) \<times> browser" where
  \<comment> \<open>the \<^verbatim>\<open>catch\<close> of the page loop: throw on the first page, \<^verbatim>\<open>break\<close> otherwise\<close>
  "catchPage pageNum message allJobs b =
     (if pageNum = 1 then (Inl (Error (''Failed to scrape jobs: '' @ message)), b)
      else (Inr allJobs, b))"

definition configSkillsOf :: "config \<Rightarrow> string list" where
  \<comment> \<open>\<^verbatim>\<open>config.skills || []\<close>\<close>
  "configSkillsOf cfg = (case config_skills cfg of None \<Rightarrow> [] | Some s \<Rightarrow> s)"

definition shouldScrapeDetails :: "config \<Rightarrow> bool" where
  \<comment> \<open>\<^verbatim>\<open>config.scrapeJobDetails !== false\<close>\<close>
  "shouldScrapeDetails cfg = (config_scrapeJobDetails cfg \<noteq> Some False)"

function scrapePages ::
  "codeUnit list \<Rightarrow> nat \<Rightarrow> config \<Rightarrow> (nat \<Rightarrow> string \<Rightarrow> searchVisit) \<Rightarrow> nat \<Rightarrow> enrichedJob list \<Rightarrow>
   browser \<Rightarrow> (error + enrichedJob list) \<times> browser" where
  "scrapePages keyword maxPages cfg world pageNum allJobs b =
     (if pageNum \<le> maxPages then
        (case buildSearchUrl keyword (pageNumber pageNum) (config_experience cfg) of
           Inl e \<Rightarrow> catchPage pageNum (errorMessage e) allJobs b
         | Inr url \<Rightarrow>
             (let visit = world pageNum url
              in case gotoError visit of
                   Some message \<Rightarrow> catchPage pageNum message allJobs b
                 | None \<Rightarrow>
                     if \<not> cardsAppear visit then (Inr allJobs, b)
                     else
                       (case evaluatedCards visit of
                          Inl message \<Rightarrow> catchPage pageNum message allJobs b
                        | Inr jobCards \<Rightarrow>
                            (let jobs = extractJobCards keyword jobCards
                             in if length jobs = 0 then (Inr allJobs, b)
                                else
                                  (case (if shouldScrapeDetails cfg
                                         then enrichLoop (configSkillsOf cfg)
                                                (experienceLabel (config_experience cfg))
                                                (detailVisits visit) 0 jobs b
                                         else (map (withoutDetails (configSkillsOf cfg)
                                                      (experienceLabel (config_experience cfg))) jobs, b))
                                   of (enriched, b') \<Rightarrow>
                                     scrapePages keyword maxPages cfg world (Suc pageNum)
                                       (allJobs @ enriched) b')))))
      else (Inr allJobs, b))"
  by pat_completeness auto
termination
  by (relation "measure (\<lambda>(keyword, maxPages, cfg, world, pageNum, allJobs, b). Suc maxPages - pageNum)") auto

declare scrapePages.simps [simp del]

definition scrapeJobs ::
  "codeUnit list \<Rightarrow> nat \<Rightarrow> config \<Rightarrow> (nat \<Rightarrow> string \<Rightarrow> searchVisit) \<Rightarrow> browser \<Rightarrow>
   (error + enrichedJob list) \<times> browser" where
  "scrapeJobs keyword maxPages cfg world b = scrapePages keyword maxPages cfg world 1 [] b"


section \<open>The notions the specification is worded in\<close>

subsection \<open>Substrings, the slug and the bounds\<close>

text \<open>\<open>t\<close> is a substring of \<open>s\<close>.\<close>

definition spec_substring :: "string \<Rightarrow> string \<Rightarrow> bool" where
  "spec_substring t s = (\<exists>pre post. s = pre @ t @ post)"

text \<open>A skill normalised: lowercased and trimmed.\<close>

definition spec_normalize :: "string \<Rightarrow> string" where
  "spec_normalize s = trim (toLowerCase s)"

text \<open>The keyword holds a lone surrogate: it has no percent-encoding.\<close>

definition hasLoneSurrogate :: "codeUnit list \<Rightarrow> bool" where
  "hasLoneSurrogate s = list_ex isSurrogate s"

text \<open>The percent-encoding of a string without lone surrogate: the escapes of its code units.\<close>

definition spec_percentEncoded :: "codeUnit list \<Rightarrow> string" where
  "spec_percentEncoded s =
     concat (map (\<lambda>u. case u of Latin1 c \<Rightarrow> encodeUnit c | LowSurrogate w \<Rightarrow> []) s)"




subsection \<open>Listing cards\<close>

text \<open>
  What a selector resolves to: the trimmed text of the element, when there is an element
  and its trimmed text is not empty.
\<close>

definition spec_resolved :: "string option \<Rightarrow> string option" where
  "spec_resolved el = (case el of None \<Rightarrow> None | Some t \<Rightarrow> if trim t = [] then None else Some (trim t))"

definition spec_field :: "string option \<Rightarrow> string \<Rightarrow> string" where
  "spec_field el sentinel = (case spec_resolved el of None \<Rightarrow> sentinel | Some t \<Rightarrow> t)"

text \<open>A card passes the validity gate: a title, a company and a job URL.\<close>

definition spec_wellFormed :: "listingCard \<Rightarrow> bool" where
  "spec_wellFormed c =
     (spec_resolved (titleElement c) \<noteq> None \<and> spec_resolved (companyElement c) \<noteq> None \<and>
      linkElement c \<noteq> None \<and> linkElement c \<noteq> Some [])"

text \<open>The record of a card that passes: the resolved fields, a sentinel for each unresolved one.\<close>

definition spec_record :: "codeUnit list \<Rightarrow> listingCard \<Rightarrow> jobListing" where
  "spec_record keyword c =
     \<lparr>title = spec_field (titleElement c) [],
      company = spec_field (companyElement c) [],
      location = spec_field (locationElement c) ''Not specified'',
      experience = spec_field (expElement c) ''Not specified'',
      salary = spec_field (salaryElement c) ''Not disclosed'',
      skills = filter (\<lambda>t. t \<noteq> []) (map trim (skillElements c)),
      description = spec_field (descElement c) [],
      jobUrl = (case linkElement c of None \<Rightarrow> [] | Some href \<Rightarrow> href),
      postedDate = spec_field (dateElement c) ''Not specified'',
      searchKeyword = keyword,
      scrapedAt = isoClock c\<rparr>"

subsection \<open>The vacancy count\<close>

text \<open>The last value a scan finds, if it finds any.\<close>

fun lastFound :: "'a option list \<Rightarrow> 'a option" where
  "lastFound [] = None"
| "lastFound (x # xs) = (case lastFound xs of Some y \<Rightarrow> Some y | None \<Rightarrow> x)"

text \<open>
  What the label-pair scan finds at one label: the first number of the value paired with
  a label that contains \<^verbatim>\<open>vacancy\<close> or \<^verbatim>\<open>opening\<close>.
\<close>

definition spec_labelVacancy :: "string \<times> string option \<Rightarrow> string option" where
  "spec_labelVacancy label =
     (if includes_str (toLowerCase (trim (fst label))) ''vacancy'' \<or>
         includes_str (toLowerCase (trim (fst label))) ''opening''
      then matchDigits (textOr (snd label) []) else None)"

text \<open>
  What the regex scan finds at one text node: the number of an \<^verbatim>\<open>N openings\<close> pattern in a
  text shorter than 30.
\<close>

definition spec_openings :: "string \<Rightarrow> string option" where
  "spec_openings el =
     (if includes_str (toLowerCase (trim el)) ''opening'' \<and> list_ex isDigit (trim el) \<and>
         length (trim el) < 30
      then matchOpenings (trim el) else None)"

subsection \<open>Detail visits and search pages\<close>

text \<open>The detail visit faults before \<^verbatim>\<open>evaluate\<close> has returned its result.\<close>

definition visitFaults :: "detailVisit \<Rightarrow> bool" where
  "visitFaults v = (\<not> newPageOk v \<or> \<not> setupOk v \<or> \<not> detailGotoOk v \<or> evaluated v = None)"

text \<open>The record a detail visit gives: the defaults on a fault, the extraction otherwise.\<close>

definition visitDetails :: "detailVisit \<Rightarrow> jobDetail" where
  "visitDetails v =
     (if visitFaults v then defaultDetails
      else (case evaluated v of None \<Rightarrow> defaultDetails | Some document \<Rightarrow> extractDetails document))"

text \<open>Building the URL of page \<open>n\<close> throws.\<close>

definition urlFaults :: "codeUnit list \<Rightarrow> config \<Rightarrow> nat \<Rightarrow> bool" where
  "urlFaults keyword cfg n = isl (buildSearchUrl keyword (pageNumber n) (config_experience cfg))"

text \<open>The search page the loop gets for page \<open>n\<close>, when the URL of that page is built.\<close>

definition pageVisit ::
  "codeUnit list \<Rightarrow> config \<Rightarrow> (nat \<Rightarrow> string \<Rightarrow> searchVisit) \<Rightarrow> nat \<Rightarrow> searchVisit" where
  "pageVisit keyword cfg world n =
     world n (case buildSearchUrl keyword (pageNumber n) (config_experience cfg) of
                Inl e \<Rightarrow> []
              | Inr url \<Rightarrow> url)"

text \<open>The page load faults: \<^verbatim>\<open>page.goto\<close> rejects (a navigation error or its timeout).\<close>

definition navigationFaults :: "searchVisit \<Rightarrow> bool" where
  "navigationFaults v = (gotoError v \<noteq> None)"

text \<open>The listing extraction faults: the page loaded, cards appeared, \<^verbatim>\<open>page.evaluate\<close> rejects.\<close>

definition extractionFaults :: "searchVisit \<Rightarrow> bool" where
  "extractionFaults v = (gotoError v = None \<and> cardsAppear v \<and> isl (evaluatedCards v))"

text \<open>The message of the error a faulting page throws.\<close>

definition faultMessage :: "searchVisit \<Rightarrow> string" where
  "faultMessage v =
     (case gotoError v of
        Some message \<Rightarrow> message
      | None \<Rightarrow> (case evaluatedCards v of Inl message \<Rightarrow> message | Inr jobCards \<Rightarrow> []))"

text \<open>
  Something inside the \<^verbatim>\<open>try\<close> block of page \<open>n\<close> throws: building the URL, or else the
  page load or the listing extraction; and the message of what is thrown.
\<close>

definition pageThrows :: "codeUnit list \<Rightarrow> config \<Rightarrow> (nat \<Rightarrow> string \<Rightarrow> searchVisit) \<Rightarrow> nat \<Rightarrow> bool" where
  "pageThrows keyword cfg world n =
     (urlFaults keyword cfg n \<or> navigationFaults (pageVisit keyword cfg world n) \<or>
      extractionFaults (pageVisit keyword cfg world n))"

definition thrownMessage :: "codeUnit list \<Rightarrow> config \<Rightarrow> (nat \<Rightarrow> string \<Rightarrow> searchVisit) \<Rightarrow> nat \<Rightarrow> string" where
  "thrownMessage keyword cfg world n =
     (case buildSearchUrl keyword (pageNumber n) (config_experience cfg) of
        Inl e \<Rightarrow> errorMessage e
      | Inr url \<Rightarrow> faultMessage (pageVisit keyword cfg world n))"

text \<open>The listings extracted from a page.\<close>

definition pageJobs :: "codeUnit list \<Rightarrow> searchVisit \<Rightarrow> jobListing list" where
  "pageJobs keyword v =
     (case evaluatedCards v of Inl message \<Rightarrow> [] | Inr jobCards \<Rightarrow> extractJobCards keyword jobCards)"

text \<open>
  The page is scraped: its URL is built (the keyword has no lone surrogate), it loads, cards
  appear and at least one listing is extracted.
\<close>

definition pageYields :: "codeUnit list \<Rightarrow> searchVisit \<Rightarrow> bool" where
  "pageYields keyword v =
     (\<not> hasLoneSurrogate keyword \<and> gotoError v = None \<and> cardsAppear v \<and> pageJobs keyword v \<noteq> [])"

text \<open>The records a scraped page adds: its listings, each enriched.\<close>

definition pageRecords :: "codeUnit list \<Rightarrow> config \<Rightarrow> searchVisit \<Rightarrow> enrichedJob list" where
  "pageRecords keyword cfg v =
     (if shouldScrapeDetails cfg then
        map (\<lambda>(i, job). mergeDetails (configSkillsOf cfg) (experienceLabel (config_experience cfg)) job
                          (visitDetails (detailVisits v i (jobUrl job))))
          (enumerate 0 (pageJobs keyword v))
      else map (withoutDetails (configSkillsOf cfg) (experienceLabel (config_experience cfg)))
             (pageJobs keyword v))"

section \<open>Example inputs\<close>

text \<open>A keyword written in Latin-1, and the keyword that is one lone surrogate.\<close>

definition latin :: "string \<Rightarrow> codeUnit list" where
  "latin s = map Latin1 s"

definition loneSurrogate :: "codeUnit list" where
  "loneSurrogate = [LowSurrogate 0]"

text \<open>A listing card with title, company and link, two skills, and nothing else resolved.\<close>

definition exampleCard :: listingCard where
  "exampleCard =
     \<lparr>titleElement = Some '' Backend Developer '',
      linkElement = Some ''https://www.naukri.com/job-listings-backend-developer'',
      companyElement = Some ''Acme'', locationElement = None, expElement = Some ''  '',
      salaryElement = None, skillElements = ['' Java '', [], ''SQL''], descElement = None,
      dateElement = None, isoClock = ''2024-01-01T00:00:00.000Z''\<rparr>"

text \<open>
  A detail page: a vacancy label with the value 12, an industry label, two key skills, and
  text nodes of which the second reads \<^verbatim>\<open>7 Openings\<close>.
\<close>

definition exampleDocument :: detailDom where
  "exampleDocument =
     \<lparr>descCandidates = [None],
      skillCandidates = [[], [''React'', ''React'', ''Node'']],
      allLabels = [(''Vacancy'', Some ''12 posts''), (''Industry Type'', Some ''IT Services / Consulting'')],
      salaryCandidates = [Some ''Not Disclosed'', Some ''5-7 LPA''],
      dateCandidates = [[''Posted: 3 days ago'']],
      infoSpans = [''Applicants: 40'', ''7 Openings'', ''Role''],
      detailSections = []\<rparr>"

text \<open>A detail visit where every call resolves, and one whose navigation times out.\<close>

definition exampleVisit :: detailVisit where
  "exampleVisit =
     \<lparr>newPageOk = True, setupOk = True, detailGotoOk = True, evaluated = Some exampleDocument,
      closeOk = True\<rparr>"

definition timeoutVisit :: detailVisit where
  "timeoutVisit =
     \<lparr>newPageOk = True, setupOk = True, detailGotoOk = False, evaluated = None, closeOk = True\<rparr>"

definition freshBrowser :: browser where
  "freshBrowser = \<lparr>nextPageId = 0, openPages = []\<rparr>"

text \<open>
  Ten cards like the example with links of their own, a configuration with one skill, and a
  search where page 1 shows the ten cards, the detail visit of its third job times out, and
  page 2 shows a single card without a title.
\<close>

definition tenCards :: "listingCard list" where
  "tenCards =
     map (\<lambda>k. exampleCard\<lparr>linkElement := Some (''https://www.naukri.com/job-listings-'' @ digits k)\<rparr>)
       [1, 2, 3, 4, 5, 6, 7, 8, 9, 10]"

definition exampleConfig :: config where
  "exampleConfig = \<lparr>config_experience = None, config_skills = Some [''java''], config_scrapeJobDetails = None\<rparr>"

definition exampleWorld :: "nat \<Rightarrow> string \<Rightarrow> searchVisit" where
  "exampleWorld n url =
     (if n = 1 then
        \<lparr>gotoError = None, cardsAppear = True, evaluatedCards = Inr tenCards,
         detailVisits = (\<lambda>i jobUrl. if i = 2 then timeoutVisit else exampleVisit)\<rparr>
      else
        \<lparr>gotoError = None, cardsAppear = True,
         evaluatedCards = Inr [exampleCard\<lparr>titleElement := None\<rparr>],
         detailVisits = (\<lambda>i jobUrl. exampleVisit)\<rparr>)"

text \<open>A search whose first page loads and shows cards, and whose extraction is rejected.\<close>

definition brokenWorld :: "nat \<Rightarrow> string \<Rightarrow> searchVisit" where
  "brokenWorld n url =
     \<lparr>gotoError = None, cardsAppear = True,
      evaluatedCards = Inl ''Execution context was destroyed'',
      detailVisits = (\<lambda>i jobUrl. exampleVisit)\<rparr>"


section \<open>Strings: substring test and whitespace runs\<close>

lemma startsWith_iff: "startsWith s t \<longleftrightarrow> (\<exists>post. s = t @ post)"
  by (induction s t rule: startsWith.induct) auto

lemma includes_str_iff: "includes_str s t \<longleftrightarrow> (\<exists>pre post. s = pre @ t @ post)"
proof (induction s)
  case Nil
  then show ?case by simp
next
  case (Cons c cs)
  show ?case
  proof
    assume "includes_str (c # cs) t"
    then consider "startsWith (c # cs) t" | "includes_str cs t" by auto
    then show "\<exists>pre post. c # cs = pre @ t @ post"
    proof cases
      case 1
      then obtain post where "c # cs = t @ post" by (auto simp: startsWith_iff)
      then have "c # cs = [] @ t @ post" by simp
      then show ?thesis by blast
    next
      case 2
      then obtain pre post where "cs = pre @ t @ post" using Cons.IH by auto
      then have "c # cs = (c # pre) @ t @ post" by simp
      then show ?thesis by blast
    qed
  next
    assume "\<exists>pre post. c # cs = pre @ t @ post"
    then obtain pre post where e: "c # cs = pre @ t @ post" by auto
    show "includes_str (c # cs) t"
    proof (cases pre)
      case Nil
      with e have "startsWith (c # cs) t" by (auto simp: startsWith_iff)
      then show ?thesis by simp
    next
      case (Cons p ps)
      with e have "cs = ps @ t @ post" by simp
      then have "includes_str cs t" using Cons.IH by blast
      then show ?thesis by simp
    qed
  qed
qed

lemma includes_str_substring: "includes_str s t = spec_substring t s"
  by (simp add: includes_str_iff spec_substring_def)





section \<open>Lone surrogates and the percent-encoding\<close>

lemma encodeURIComponent_eq:
  "encodeURIComponent s =
     (if hasLoneSurrogate s then Inl (URIError ''URI malformed'') else Inr (spec_percentEncoded s))"
  by (induction s rule: encodeURIComponent.induct)
     (simp_all add: hasLoneSurrogate_def isSurrogate_def spec_percentEncoded_def)

lemma hasLoneSurrogate_lower: "hasLoneSurrogate (toLowerCase_units s) = hasLoneSurrogate s"
  by (induction s)
     (auto simp: hasLoneSurrogate_def toLowerCase_units_def lowerUnit_def isSurrogate_def
        split: codeUnit.splits)

lemma hasLoneSurrogate_dropSpaces: "hasLoneSurrogate (dropWhile isSpaceUnit s) = hasLoneSurrogate s"
  by (induction s) (auto simp: hasLoneSurrogate_def isSpaceUnit_def isSurrogate_def split: codeUnit.splits)

lemma hasLoneSurrogate_replace: "hasLoneSurrogate (replaceSpaceRuns s) = hasLoneSurrogate s"
proof (induction s rule: replaceSpaceRuns.induct)
  case 1
  then show ?case by simp
next
  case (2 c cs)
  show ?case
  proof (cases "isSpaceUnit c")
    case True
    then have n: "\<not> isSurrogate c"
      by (auto simp: isSpaceUnit_def isSurrogate_def split: codeUnit.splits)
    have "hasLoneSurrogate (replaceSpaceRuns (dropWhile isSpaceUnit cs)) = hasLoneSurrogate cs"
      using 2(1) [OF True] by (simp add: hasLoneSurrogate_dropSpaces)
    then show ?thesis using True n by (simp add: hasLoneSurrogate_def isSurrogate_def)
  next
    case False
    then show ?thesis using 2(2) by (simp add: hasLoneSurrogate_def)
  qed
qed

lemma buildSearchUrl_throws:
  "hasLoneSurrogate keyword \<Longrightarrow>
   buildSearchUrl keyword pageNum bounds = Inl (URIError ''URI malformed'')"
  by (simp add: buildSearchUrl_def encodeURIComponent_eq hasLoneSurrogate_replace hasLoneSurrogate_lower)

lemma buildSearchUrl_returns:
  "\<not> hasLoneSurrogate keyword \<Longrightarrow> \<not> isl (buildSearchUrl keyword pageNum bounds)"
  by (simp add: buildSearchUrl_def encodeURIComponent_eq hasLoneSurrogate_replace hasLoneSurrogate_lower
        Let_def split: option.splits)

lemma urlFaults_iff: "urlFaults keyword cfg n \<longleftrightarrow> hasLoneSurrogate keyword"
  using buildSearchUrl_throws [of keyword "pageNumber n" "config_experience cfg"]
    buildSearchUrl_returns [of keyword "pageNumber n" "config_experience cfg"]
  by (auto simp: urlFaults_def)

lemma hasLoneSurrogate_latin: "\<not> hasLoneSurrogate (latin s)"
  by (induction s) (simp_all add: hasLoneSurrogate_def latin_def isSurrogate_def)



section \<open>The search URL is bit-exact, or there is none\<close>




section \<open>The skill matcher returns the job skills that contain or are contained\<close>

lemma matchSkills_filter:
  "matchSkills (Some J) (Some C) =
     filter (\<lambda>j. \<exists>c\<in>set C. spec_substring (spec_normalize c) (spec_normalize j) \<or>
                             spec_substring (spec_normalize j) (spec_normalize c)) J"
  by (simp add: matchSkills_def list_ex_iff includes_str_substring spec_normalize_def Let_def)

lemma matchSkills_subset: "set (matchSkills (Some J) C) \<subseteq> set J"
  by (auto simp: matchSkills_def Let_def split: option.splits)

text \<open>
  C3. For non-empty job skills \<open>J\<close> and non-empty configured skills \<open>C\<close>, \<^verbatim>\<open>matchSkills\<close>
  returns exactly the elements of \<open>J\<close>, as they are and in their order, for which some
  element of \<open>C\<close> is, both lowercased and trimmed, a substring of the skill or has the
  skill as a substring. In particular \<^verbatim>\<open>["Node.JS"]\<close> against \<^verbatim>\<open>["node.js"]\<close> gives
  \<^verbatim>\<open>["Node.JS"]\<close>, and \<^verbatim>\<open>["ReactJS Developer"]\<close> against \<^verbatim>\<open>["react"]\<close> is not empty.
\<close>

theorem matchSkills_bidirectional:
  "(J \<noteq> [] \<and> C \<noteq> [] \<longrightarrow>
      matchSkills (Some J) (Some C) =
        filter (\<lambda>j. \<exists>c\<in>set C. spec_substring (spec_normalize j) (spec_normalize c) \<or>
                                spec_substring (spec_normalize c) (spec_normalize j)) J) \<and>
   matchSkills (Some [''Node.JS'']) (Some [''node.js'']) = [''Node.JS''] \<and>
   matchSkills (Some [''ReactJS Developer'']) (Some [''react'']) \<noteq> []"
proof (intro conjI impI)
  have "(\<lambda>j. \<exists>c\<in>set C. spec_substring (spec_normalize j) (spec_normalize c) \<or>
                         spec_substring (spec_normalize c) (spec_normalize j)) =
        (\<lambda>j. \<exists>c\<in>set C. spec_substring (spec_normalize c) (spec_normalize j) \<or>
                         spec_substring (spec_normalize j) (spec_normalize c))"
    by auto
  then show "matchSkills (Some J) (Some C) =
        filter (\<lambda>j. \<exists>c\<in>set C. spec_substring (spec_normalize j) (spec_normalize c) \<or>
                                spec_substring (spec_normalize c) (spec_normalize j)) J"
    by (simp add: matchSkills_filter)
next
  show "matchSkills (Some [''Node.JS'']) (Some [''node.js'']) = [''Node.JS'']"
    by code_simp
next
  have "matchSkills (Some [''ReactJS Developer'']) (Some [''react'']) = [''ReactJS Developer'']"
    by code_simp
  then show "matchSkills (Some [''ReactJS Developer'']) (Some [''react'']) \<noteq> []"
    by simp
qed

text \<open>Of \<^verbatim>\<open>["ReactJS Developer", "Java"]\<close> against \<^verbatim>\<open>["react"]\<close> the first skill is kept.\<close>

theorem matchSkills_bidirectional_witness:
  "[''ReactJS Developer'', ''Java''] \<noteq> [] \<and> [''react''] \<noteq> [] \<and>
   filter (\<lambda>j. \<exists>c\<in>set [''react'']. spec_substring (spec_normalize j) (spec_normalize c) \<or>
                                   spec_substring (spec_normalize c) (spec_normalize j))
     [''ReactJS Developer'', ''Java''] = [''ReactJS Developer'']"
proof -
  have v: "matchSkills (Some [''ReactJS Developer'', ''Java'']) (Some [''react'']) = [''ReactJS Developer'']"
    by code_simp
  have h: "[''ReactJS Developer'', ''Java''] \<noteq> [] \<and> [''react''] \<noteq> []"
    by simp
  from matchSkills_bidirectional [of "[''ReactJS Developer'', ''Java'']" "[''react'']"] h
  have "matchSkills (Some [''ReactJS Developer'', ''Java'']) (Some [''react'']) =
        filter (\<lambda>j. \<exists>c\<in>set [''react'']. spec_substring (spec_normalize j) (spec_normalize c) \<or>
                                   spec_substring (spec_normalize c) (spec_normalize j))
     [''ReactJS Developer'', ''Java'']"
    by blast
  with v h show ?thesis by simp
qed

section \<open>The listing pass keeps the well-formed cards\<close>

lemma textOr_field: "textOr el d = spec_field el d"
  by (simp add: textOr_def spec_field_def spec_resolved_def split: option.splits)

lemma spec_field_empty: "spec_field el [] \<noteq> [] \<longleftrightarrow> spec_resolved el \<noteq> None"
  by (auto simp: spec_field_def spec_resolved_def split: option.splits if_splits)

lemma extractCard_step:
  "extractCard keyword jobs c = jobs @ (if spec_wellFormed c then [spec_record keyword c] else [])"
  by (auto simp: extractCard_def Let_def textOr_field spec_field_empty spec_wellFormed_def spec_record_def
           split: option.splits)

lemma foldl_extractCard:
  "foldl (extractCard keyword) jobs cs = jobs @ map (spec_record keyword) (filter spec_wellFormed cs)"
  by (induction cs arbitrary: jobs) (simp_all add: extractCard_step)

lemma extractJobCards_eq:
  "extractJobCards keyword jobCards = map (spec_record keyword) (filter spec_wellFormed jobCards)"
  by (simp add: extractJobCards_def foldl_extractCard)

lemma spec_record_gate:
  "spec_wellFormed c \<Longrightarrow>
   title (spec_record keyword c) \<noteq> [] \<and> company (spec_record keyword c) \<noteq> [] \<and>
   jobUrl (spec_record keyword c) \<noteq> []"
  by (auto simp: spec_wellFormed_def spec_record_def spec_field_empty split: option.splits)

text \<open>
  C4. The listing pass emits, in the cards' order, one record for each card that yields a
  non-empty title, a non-empty company and a job URL, and none for any other card,
  whatever else that card has. Each record carries the search keyword, and the sentinel
  of every optional field that did not resolve.
\<close>

theorem extractJobCards_discards:
  "extractJobCards keyword jobCards = map (spec_record keyword) (filter spec_wellFormed jobCards) \<and>
   (\<forall>job\<in>set (extractJobCards keyword jobCards).
      title job \<noteq> [] \<and> company job \<noteq> [] \<and> jobUrl job \<noteq> [] \<and> searchKeyword job = keyword)"
proof
  show "extractJobCards keyword jobCards = map (spec_record keyword) (filter spec_wellFormed jobCards)"
    by (rule extractJobCards_eq)
  show "\<forall>job\<in>set (extractJobCards keyword jobCards).
      title job \<noteq> [] \<and> company job \<noteq> [] \<and> jobUrl job \<noteq> [] \<and> searchKeyword job = keyword"
  proof
    fix job assume "job \<in> set (extractJobCards keyword jobCards)"
    then obtain c where c: "spec_wellFormed c" "job = spec_record keyword c"
      unfolding extractJobCards_eq by auto
    then show "title job \<noteq> [] \<and> company job \<noteq> [] \<and> jobUrl job \<noteq> [] \<and> searchKeyword job = keyword"
      using spec_record_gate [OF c(1), of keyword] by (simp add: spec_record_def)
  qed
qed

text \<open>
  Four cards: one without a title element, a complete one, one whose company is blank and
  one whose link has an empty \<^verbatim>\<open>href\<close>. Only the complete one is emitted, with the sentinels
  of its location, experience, salary and date.
\<close>

theorem extractJobCards_discards_witness:
  "extractJobCards (latin ''test'')
     [exampleCard\<lparr>titleElement := None\<rparr>, exampleCard, exampleCard\<lparr>companyElement := Some ''  ''\<rparr>,
      exampleCard\<lparr>linkElement := Some []\<rparr>] =
     [\<lparr>title = ''Backend Developer'', company = ''Acme'', location = ''Not specified'',
       experience = ''Not specified'', salary = ''Not disclosed'', skills = [''Java'', ''SQL''],
       description = [], jobUrl = ''https://www.naukri.com/job-listings-backend-developer'',
       postedDate = ''Not specified'', searchKeyword = (latin ''test''),
       scrapedAt = ''2024-01-01T00:00:00.000Z''\<rparr>] \<and>
   map (spec_record (latin ''test''))
     (filter spec_wellFormed
        [exampleCard\<lparr>titleElement := None\<rparr>, exampleCard, exampleCard\<lparr>companyElement := Some ''  ''\<rparr>,
         exampleCard\<lparr>linkElement := Some []\<rparr>]) =
     [\<lparr>title = ''Backend Developer'', company = ''Acme'', location = ''Not specified'',
       experience = ''Not specified'', salary = ''Not disclosed'', skills = [''Java'', ''SQL''],
       description = [], jobUrl = ''https://www.naukri.com/job-listings-backend-developer'',
       postedDate = ''Not specified'', searchKeyword = (latin ''test''),
       scrapedAt = ''2024-01-01T00:00:00.000Z''\<rparr>]"
proof -
  have v: "extractJobCards (latin ''test'')
     [exampleCard\<lparr>titleElement := None\<rparr>, exampleCard, exampleCard\<lparr>companyElement := Some ''  ''\<rparr>,
      exampleCard\<lparr>linkElement := Some []\<rparr>] =
     [\<lparr>title = ''Backend Developer'', company = ''Acme'', location = ''Not specified'',
       experience = ''Not specified'', salary = ''Not disclosed'', skills = [''Java'', ''SQL''],
       description = [], jobUrl = ''https://www.naukri.com/job-listings-backend-developer'',
       postedDate = ''Not specified'', searchKeyword = (latin ''test''),
       scrapedAt = ''2024-01-01T00:00:00.000Z''\<rparr>]"
    by code_simp
  show ?thesis
    using extractJobCards_discards [of "latin ''test''" "[exampleCard\<lparr>titleElement := None\<rparr>, exampleCard,
        exampleCard\<lparr>companyElement := Some ''  ''\<rparr>, exampleCard\<lparr>linkElement := Some []\<rparr>]"]
    unfolding v by simp
qed

section \<open>The vacancy count: two passes, the later writer wins\<close>

lemma foldl_keeps: "(\<And>r x. g (f r x) = g r) \<Longrightarrow> g (foldl f r xs) = g r"
  by (induction xs arbitrary: r) simp_all

lemma scanLabel_vacancy:
  "totalVacancy (scanLabel result label) =
     (case spec_labelVacancy label of Some v \<Rightarrow> v | None \<Rightarrow> totalVacancy result)"
  by (simp add: scanLabel_def spec_labelVacancy_def Let_def split: option.splits)

lemma foldl_scanLabel_vacancy:
  "totalVacancy (foldl scanLabel result labels) =
     (case lastFound (map spec_labelVacancy labels) of Some v \<Rightarrow> v | None \<Rightarrow> totalVacancy result)"
  by (induction labels arbitrary: result) (auto simp: scanLabel_vacancy split: option.splits)

lemma scanOpenings_vacancy:
  "totalVacancy (scanOpenings result el) =
     (case spec_openings el of Some m \<Rightarrow> m | None \<Rightarrow> totalVacancy result)"
  by (simp add: scanOpenings_def spec_openings_def Let_def split: option.splits)

lemma foldl_scanOpenings_vacancy:
  "totalVacancy (foldl scanOpenings result els) =
     (case lastFound (map spec_openings els) of Some m \<Rightarrow> m | None \<Rightarrow> totalVacancy result)"
  by (induction els arbitrary: result) (auto simp: scanOpenings_vacancy split: option.splits)

lemma foldl_scanDate_vacancy: "totalVacancy (foldl scanDate result els) = totalVacancy result"
  by (rule foldl_keeps) (simp add: scanDate_def Let_def)

lemma scanSection_vacancy: "totalVacancy (scanSection result s) = totalVacancy result"
  unfolding scanSection_def Let_def
  by (simp add: foldl_keeps [where g = totalVacancy])

lemma foldl_scanSection_vacancy: "totalVacancy (foldl scanSection result ss) = totalVacancy result"
  by (rule foldl_keeps) (rule scanSection_vacancy)

text \<open>
  C8. The vacancy count of the detail pass is the number of the last text node in which
  the regex scan finds \<^verbatim>\<open>N openings\<close>, if it finds any; otherwise the number the
  label-pair scan found last; otherwise the sentinel. The label-pair scan runs first and
  the regex scan second, so a regex match overwrites the label-pair result.
\<close>

theorem vacancy_last_writer_wins:
  "totalVacancy (extractDetails document) =
     (case lastFound (map spec_openings (infoSpans document)) of
        Some m \<Rightarrow> m
      | None \<Rightarrow>
          (case lastFound (map spec_labelVacancy (allLabels document)) of
             Some v \<Rightarrow> v
           | None \<Rightarrow> ''Not specified''))"
  by (simp add: extractDetails_def Let_def foldl_scanSection_vacancy foldl_scanOpenings_vacancy
        foldl_scanDate_vacancy foldl_scanLabel_vacancy defaultDetails_def split: option.splits)

text \<open>
  On the example page the label pair gives 12 and the regex scan 7: the count is 7. With
  no text node that matches it is 12, and with no label either it is the sentinel.
\<close>

theorem vacancy_last_writer_wins_witness:
  "lastFound (map spec_labelVacancy (allLabels exampleDocument)) = Some ''12'' \<and>
   lastFound (map spec_openings (infoSpans exampleDocument)) = Some ''7'' \<and>
   totalVacancy (extractDetails exampleDocument) = ''7'' \<and>
   spec_openings ''Role'' = None \<and>
   totalVacancy (extractDetails (exampleDocument\<lparr>infoSpans := [''Role'']\<rparr>)) = ''12'' \<and>
   totalVacancy (extractDetails (exampleDocument\<lparr>infoSpans := [], allLabels := []\<rparr>)) = ''Not specified''"
proof -
  have l: "lastFound (map spec_labelVacancy (allLabels exampleDocument)) = Some ''12''"
    by code_simp
  have s: "lastFound (map spec_openings (infoSpans exampleDocument)) = Some ''7''"
    by code_simp
  have n: "spec_openings ''Role'' = None"
    by code_simp
  have a: "allLabels (exampleDocument\<lparr>infoSpans := [''Role'']\<rparr>) = allLabels exampleDocument"
    by simp
  show ?thesis
    using vacancy_last_writer_wins [of exampleDocument]
      vacancy_last_writer_wins [of "exampleDocument\<lparr>infoSpans := [''Role'']\<rparr>"]
      vacancy_last_writer_wins [of "exampleDocument\<lparr>infoSpans := [], allLabels := []\<rparr>"]
    unfolding a l s by (simp add: n)
qed

section \<open>The detail enricher\<close>

lemma fst_scrapeJobDetails: "fst (scrapeJobDetails b url v) = visitDetails v"
  by (auto simp: scrapeJobDetails_def visitDetails_def visitFaults_def Let_def defaultDetails_def
           split: option.splits)

lemma detail_page_closed:
  "\<not> visitFaults v \<Longrightarrow> closeOk v \<Longrightarrow> nextPageId b \<notin> set (openPages b) \<Longrightarrow>
   openPages (snd (scrapeJobDetails b url v)) = openPages b"
  by (auto simp: scrapeJobDetails_def visitFaults_def Let_def)

text \<open>
  C9 asks that the tab \<^verbatim>\<open>scrapeJobDetails\<close> opens is closed on every path. The source calls
  \<^verbatim>\<open>detailPage.close()\<close> as the last statement of the \<^verbatim>\<open>try\<close> block only: when the tab is
  open and a later call rejects, the \<^verbatim>\<open>catch\<close> returns the defaults and the tab is still
  among the open ones.
\<close>

theorem detail_page_left_open:
  "newPageOk v \<and> (\<not> setupOk v \<or> \<not> detailGotoOk v \<or> evaluated v = None) \<Longrightarrow>
   scrapeJobDetails b url v =
     (defaultDetails, b\<lparr>nextPageId := Suc (nextPageId b), openPages := nextPageId b # openPages b\<rparr>)"
  by (auto simp: scrapeJobDetails_def Let_def)

text \<open>A navigation timeout in a fresh browser leaves tab 0 open.\<close>

theorem detail_page_left_open_witness:
  "openPages (snd (scrapeJobDetails freshBrowser ''https://www.naukri.com/job-listings-backend-developer''
     timeoutVisit)) = [0]"
proof -
  have h: "newPageOk timeoutVisit \<and>
    (\<not> setupOk timeoutVisit \<or> \<not> detailGotoOk timeoutVisit \<or> evaluated timeoutVisit = None)"
    by (simp add: timeoutVisit_def)
  show ?thesis
    using detail_page_left_open [OF h, of freshBrowser "''https://www.naukri.com/job-listings-backend-developer''"]
    by (simp add: freshBrowser_def)
qed

section \<open>The enrichment loop\<close>

lemma fst_enrichLoop:
  "fst (enrichLoop cs lbl visits k jobs b) =
     map (\<lambda>(i, job). mergeDetails cs lbl job (visitDetails (visits i (jobUrl job)))) (enumerate k jobs)"
proof (induction jobs arbitrary: k b)
  case Nil
  then show ?case by simp
next
  case (Cons job rest)
  obtain d b1 where s: "scrapeJobDetails b (jobUrl job) (visits k (jobUrl job)) = (d, b1)"
    by (cases "scrapeJobDetails b (jobUrl job) (visits k (jobUrl job))")
  then have d: "d = visitDetails (visits k (jobUrl job))"
    using fst_scrapeJobDetails [of b "jobUrl job" "visits k (jobUrl job)"] by simp
  obtain r b2 where e: "enrichLoop cs lbl visits (Suc k) rest b1 = (r, b2)"
    by (cases "enrichLoop cs lbl visits (Suc k) rest b1")
  then have "r = map (\<lambda>(i, job). mergeDetails cs lbl job (visitDetails (visits i (jobUrl job))))
                   (enumerate (Suc k) rest)"
    using Cons.IH [of "Suc k" b1] by simp
  with s d e show ?case by simp
qed

lemma length_enrichLoop: "length (fst (enrichLoop cs lbl visits k jobs b)) = length jobs"
  by (simp add: fst_enrichLoop)

lemma nth_enrichLoop:
  "i < length jobs \<Longrightarrow>
   fst (enrichLoop cs lbl visits k jobs b) ! i =
     mergeDetails cs lbl (jobs ! i) (visitDetails (visits (k + i) (jobUrl (jobs ! i))))"
  by (simp add: fst_enrichLoop nth_enumerate_eq)

lemma visitDetails_fault: "visitFaults v \<Longrightarrow> visitDetails v = defaultDetails"
  by (simp add: visitDetails_def)

lemma visitDetails_loaded:
  "\<not> visitFaults v \<Longrightarrow> evaluated v = Some document \<Longrightarrow> visitDetails v = extractDetails document"
  by (simp add: visitDetails_def)

lemma mergeDetails_listing: "jobListing.truncate (mergeDetails cs lbl job d) = job"
  by (simp add: mergeDetails_def jobListing.defs enrichedJob.defs Let_def)

lemma mergeDetails_skills: "skills (mergeDetails cs lbl job d) = skills job"
  by (simp add: mergeDetails_def jobListing.defs enrichedJob.defs Let_def)

lemma mergeDetails_keySkills:
  "job_keySkills (mergeDetails cs lbl job d) = (if keySkills d = [] then skills job else keySkills d)"
  by (simp add: mergeDetails_def jobListing.defs enrichedJob.defs Let_def)

lemma mergeDetails_default:
  "job_fullDescription (mergeDetails cs lbl job defaultDetails) = [] \<and>
   job_keySkills (mergeDetails cs lbl job defaultDetails) = skills job \<and>
   job_industryTypes (mergeDetails cs lbl job defaultDetails) = [] \<and>
   job_jobPostedAt (mergeDetails cs lbl job defaultDetails) = ''Not specified'' \<and>
   job_salaryOffered (mergeDetails cs lbl job defaultDetails) = ''Not disclosed'' \<and>
   job_totalVacancy (mergeDetails cs lbl job defaultDetails) = ''Not specified''"
  by (simp add: mergeDetails_def jobListing.defs enrichedJob.defs Let_def defaultDetails_def orElse_def)

lemma set_setAdd: "set (foldl setAdd acc xs) = set acc \<union> set xs"
  by (induction xs arbitrary: acc) (auto simp: setAdd_def)

lemma mergeDetails_matched:
  "set (matchedSkills (mergeDetails cs lbl job d)) \<subseteq>
     set (skills (mergeDetails cs lbl job d)) \<union> set (job_keySkills (mergeDetails cs lbl job d))"
proof -
  let ?keys = "if length (keySkills d) > 0 then keySkills d else skills job"
  have "set (matchSkills (Some (foldl setAdd [] (skills job @ ?keys))) (Some cs))
          \<subseteq> set (foldl setAdd [] (skills job @ ?keys))"
    by (rule matchSkills_subset)
  then have "set (matchSkills (Some (foldl setAdd [] (skills job @ ?keys))) (Some cs))
          \<subseteq> set (skills job) \<union> set ?keys"
    by (simp only: set_setAdd set_append) simp
  then show ?thesis
    by (simp add: mergeDetails_def jobListing.defs enrichedJob.defs Let_def)
qed

lemma withoutDetails_matched:
  "set (matchedSkills (withoutDetails cs lbl job)) \<subseteq>
     set (skills (withoutDetails cs lbl job)) \<union> set (job_keySkills (withoutDetails cs lbl job))"
  using matchSkills_subset [of "skills job" "Some cs"]
  by (simp add: withoutDetails_def jobListing.defs enrichedJob.defs)

lemma pageRecords_matched:
  assumes "job \<in> set (pageRecords keyword cfg v)"
  shows "set (matchedSkills job) \<subseteq> set (skills job) \<union> set (job_keySkills job)"
proof (cases "shouldScrapeDetails cfg")
  case True
  with assms obtain l d where
    "job = mergeDetails (configSkillsOf cfg) (experienceLabel (config_experience cfg)) l d"
    by (auto simp: pageRecords_def)
  then show ?thesis by (simp only: mergeDetails_matched)
next
  case False
  with assms obtain l where
    "job = withoutDetails (configSkillsOf cfg) (experienceLabel (config_experience cfg)) l"
    by (auto simp: pageRecords_def)
  then show ?thesis by (simp only: withoutDetails_matched)
qed

section \<open>The page loop, one page at a time\<close>

lemma scrapePages_done:
  "maxPages < n \<Longrightarrow> scrapePages keyword maxPages cfg world n acc b = (Inr acc, b)"
  by (subst scrapePages.simps) simp

lemma pageVisit_built:
  "buildSearchUrl keyword (pageNumber n) (config_experience cfg) = Inr url \<Longrightarrow>
   pageVisit keyword cfg world n = world n url"
  by (simp add: pageVisit_def)

lemma buildSearchUrl_built:
  assumes "\<not> hasLoneSurrogate keyword"
  obtains url where "buildSearchUrl keyword pageNum bounds = Inr url"
  using buildSearchUrl_returns [OF assms, of pageNum bounds]
  by (cases "buildSearchUrl keyword pageNum bounds") auto

lemma scrapePages_step:
  assumes "n \<le> maxPages" and "pageYields keyword (pageVisit keyword cfg world n)"
  shows "\<exists>b'. scrapePages keyword maxPages cfg world n acc b =
           scrapePages keyword maxPages cfg world (Suc n)
             (acc @ pageRecords keyword cfg (pageVisit keyword cfg world n)) b'"
proof -
  let ?v = "pageVisit keyword cfg world n"
  from assms(2) have "\<not> hasLoneSurrogate keyword"
    by (simp add: pageYields_def)
  then obtain url where u: "buildSearchUrl keyword (pageNumber n) (config_experience cfg) = Inr url"
    by (rule buildSearchUrl_built)
  then have w: "world n url = ?v"
    by (simp add: pageVisit_built)
  from assms(2) obtain jobCards where
    v: "gotoError ?v = None" "cardsAppear ?v" "evaluatedCards ?v = Inr jobCards"
      "extractJobCards keyword jobCards \<noteq> []"
    by (auto simp: pageYields_def pageJobs_def split: sum.splits)
  then have j: "pageJobs keyword ?v = extractJobCards keyword jobCards"
    by (simp add: pageJobs_def)
  show ?thesis
  proof (cases "shouldScrapeDetails cfg")
    case True
    obtain r b' where e: "enrichLoop (configSkillsOf cfg) (experienceLabel (config_experience cfg))
        (detailVisits ?v) 0 (extractJobCards keyword jobCards) b = (r, b')"
      by (cases "enrichLoop (configSkillsOf cfg) (experienceLabel (config_experience cfg))
        (detailVisits ?v) 0 (extractJobCards keyword jobCards) b")
    then have "r = pageRecords keyword cfg ?v"
      using fst_enrichLoop [of "configSkillsOf cfg" "experienceLabel (config_experience cfg)"
          "detailVisits ?v" 0 "extractJobCards keyword jobCards" b] True
      by (simp add: pageRecords_def j)
    with e True v assms(1) have
      "scrapePages keyword maxPages cfg world n acc b =
         scrapePages keyword maxPages cfg world (Suc n) (acc @ pageRecords keyword cfg ?v) b'"
      by (subst scrapePages.simps) (simp add: u w Let_def)
    then show ?thesis by blast
  next
    case False
    with v assms(1) have
      "scrapePages keyword maxPages cfg world n acc b =
         scrapePages keyword maxPages cfg world (Suc n) (acc @ pageRecords keyword cfg ?v) b"
      by (subst scrapePages.simps) (simp add: u w Let_def pageRecords_def j)
    then show ?thesis by blast
  qed
qed

lemma scrapePages_stop:
  assumes "n \<le> maxPages" and "\<not> pageYields keyword (pageVisit keyword cfg world n)"
  shows "fst (scrapePages keyword maxPages cfg world n acc b) =
           (if n = 1 \<and> pageThrows keyword cfg world n
            then Inl (Error (''Failed to scrape jobs: '' @ thrownMessage keyword cfg world n))
            else Inr acc)"
proof (cases "hasLoneSurrogate keyword")
  case True
  then have u: "buildSearchUrl keyword (pageNumber n) (config_experience cfg) =
      Inl (URIError ''URI malformed'')"
    by (rule buildSearchUrl_throws)
  have "fst (scrapePages keyword maxPages cfg world n acc b) =
      fst (catchPage n ''URI malformed'' acc b)"
    using assms(1) by (subst scrapePages.simps) (simp add: u errorMessage_def)
  then show ?thesis
    using True
    by (simp add: catchPage_def pageThrows_def urlFaults_iff thrownMessage_def
          buildSearchUrl_throws [OF True] errorMessage_def)
next
  case False
  then obtain url where u: "buildSearchUrl keyword (pageNumber n) (config_experience cfg) = Inr url"
    by (rule buildSearchUrl_built)
  define v where "v = pageVisit keyword cfg world n"
  have w: "world n url = v"
    using u by (simp add: v_def pageVisit_built)
  have s: "fst (scrapePages keyword maxPages cfg world n acc b) =
      (case gotoError v of
         Some message \<Rightarrow> fst (catchPage n message acc b)
       | None \<Rightarrow>
           if \<not> cardsAppear v then Inr acc
           else (case evaluatedCards v of
                   Inl message \<Rightarrow> fst (catchPage n message acc b)
                 | Inr jobCards \<Rightarrow> Inr acc))"
    using assms False w
    by (subst scrapePages.simps)
       (auto simp: u Let_def pageYields_def pageJobs_def v_def [symmetric] split: option.splits sum.splits)
  show ?thesis
    unfolding s pageThrows_def thrownMessage_def u v_def [symmetric]
    using False
    by (auto simp: navigationFaults_def extractionFaults_def faultMessage_def catchPage_def
          urlFaults_iff split: option.splits sum.splits)
qed

section \<open>The page loop as a whole\<close>

lemma scrapePages_run:
  assumes "k \<le> n" and "n \<le> maxPages"
    and "\<forall>j. k \<le> j \<and> j < n \<longrightarrow> pageYields keyword (pageVisit keyword cfg world j)"
    and "\<not> pageYields keyword (pageVisit keyword cfg world n)"
    and "1 \<le> k"
  shows "fst (scrapePages keyword maxPages cfg world k acc b) =
           (if n = 1 \<and> pageThrows keyword cfg world n
            then Inl (Error (''Failed to scrape jobs: '' @ thrownMessage keyword cfg world n))
            else Inr (acc @ concat (map (\<lambda>j. pageRecords keyword cfg (pageVisit keyword cfg world j)) [k..<n])))"
  using assms
proof (induction "n - k" arbitrary: k acc b)
  case 0
  then have "k = n" by simp
  with 0 show ?case by (auto simp: scrapePages_stop)
next
  case (Suc d)
  then have lt: "k < n" and le: "k \<le> maxPages" by simp_all
  with Suc.prems have y: "pageYields keyword (pageVisit keyword cfg world k)" by simp
  obtain b' where s: "scrapePages keyword maxPages cfg world k acc b =
      scrapePages keyword maxPages cfg world (Suc k)
        (acc @ pageRecords keyword cfg (pageVisit keyword cfg world k)) b'"
    using scrapePages_step [OF le y] by blast
  have n1: "n \<noteq> 1" using lt Suc.prems(5) by simp
  have "fst (scrapePages keyword maxPages cfg world (Suc k)
        (acc @ pageRecords keyword cfg (pageVisit keyword cfg world k)) b') =
      Inr ((acc @ pageRecords keyword cfg (pageVisit keyword cfg world k)) @
           concat (map (\<lambda>j. pageRecords keyword cfg (pageVisit keyword cfg world j)) [Suc k..<n]))"
    using Suc.hyps(1) [of "Suc k"] Suc.hyps(2) Suc.prems lt n1 by simp
  then show ?case using s lt n1 by (simp add: upt_conv_Cons)
qed

lemma scrapePages_all_pages:
  assumes "k \<le> Suc maxPages"
    and "\<forall>j. k \<le> j \<and> j \<le> maxPages \<longrightarrow> pageYields keyword (pageVisit keyword cfg world j)"
  shows "fst (scrapePages keyword maxPages cfg world k acc b) =
           Inr (acc @ concat (map (\<lambda>j. pageRecords keyword cfg (pageVisit keyword cfg world j))
                               [k..<Suc maxPages]))"
  using assms
proof (induction "Suc maxPages - k" arbitrary: k acc b)
  case 0
  then have "k = Suc maxPages" by simp
  then show ?case by (simp add: scrapePages_done)
next
  case (Suc d)
  then have le: "k \<le> maxPages" by simp
  with Suc.prems have y: "pageYields keyword (pageVisit keyword cfg world k)" by simp
  obtain b' where s: "scrapePages keyword maxPages cfg world k acc b =
      scrapePages keyword maxPages cfg world (Suc k)
        (acc @ pageRecords keyword cfg (pageVisit keyword cfg world k)) b'"
    using scrapePages_step [OF le y] by blast
  have "fst (scrapePages keyword maxPages cfg world (Suc k)
        (acc @ pageRecords keyword cfg (pageVisit keyword cfg world k)) b') =
      Inr ((acc @ pageRecords keyword cfg (pageVisit keyword cfg world k)) @
           concat (map (\<lambda>j. pageRecords keyword cfg (pageVisit keyword cfg world j)) [Suc k..<Suc maxPages]))"
    using Suc.hyps(1) [of "Suc k"] Suc.hyps(2) Suc.prems le by (simp del: upt_Suc)
  then show ?case using s le by (simp add: upt_conv_Cons del: upt_Suc)
qed

lemma scrapePages_no_error:
  "2 \<le> k \<Longrightarrow> \<not> isl (fst (scrapePages keyword maxPages cfg world k acc b))"
proof (induction "Suc maxPages - k" arbitrary: k acc b)
  case 0
  then have "maxPages < k" by simp
  then show ?case by (simp add: scrapePages_done)
next
  case (Suc d)
  then have le: "k \<le> maxPages" by simp
  show ?case
  proof (cases "pageYields keyword (pageVisit keyword cfg world k)")
    case True
    obtain b' where s: "scrapePages keyword maxPages cfg world k acc b =
        scrapePages keyword maxPages cfg world (Suc k)
          (acc @ pageRecords keyword cfg (pageVisit keyword cfg world k)) b'"
      using scrapePages_step [OF le True] by blast
    show ?thesis unfolding s using Suc.hyps(1) [of "Suc k"] Suc.hyps(2) Suc.prems by simp
  next
    case False
    show ?thesis using scrapePages_stop [OF le False] Suc.prems by simp
  qed
qed

lemma scrapePages_records:
  assumes "\<forall>job\<in>set acc. P job"
    and "\<And>v job. job \<in> set (pageRecords keyword cfg v) \<Longrightarrow> P job"
    and "fst (scrapePages keyword maxPages cfg world k acc b) = Inr jobs"
  shows "\<forall>job\<in>set jobs. P job"
  using assms(1,3)
proof (induction "Suc maxPages - k" arbitrary: k acc b)
  case 0
  then have "maxPages < k" by simp
  with 0 show ?case by (simp add: scrapePages_done)
next
  case (Suc d)
  then have le: "k \<le> maxPages" by simp
  show ?case
  proof (cases "pageYields keyword (pageVisit keyword cfg world k)")
    case True
    obtain b' where s: "scrapePages keyword maxPages cfg world k acc b =
        scrapePages keyword maxPages cfg world (Suc k)
          (acc @ pageRecords keyword cfg (pageVisit keyword cfg world k)) b'"
      using scrapePages_step [OF le True] by blast
    have a: "\<forall>job\<in>set (acc @ pageRecords keyword cfg (pageVisit keyword cfg world k)). P job"
      using Suc.prems(1) assms(2) by auto
    show ?thesis
      using Suc.hyps(1) [of "Suc k", OF _ a] Suc.hyps(2) Suc.prems(2) s by simp
  next
    case False
    show ?thesis using scrapePages_stop [OF le False, of acc b] Suc.prems
      by (auto split: if_splits)
  qed
qed

section \<open>The example search, evaluated\<close>

lemma example_jobs_length: "length (extractJobCards (latin ''test'') tenCards) = 10"
  by code_simp

lemma example_job_first:
  "extractJobCards (latin ''test'') tenCards ! 0 =
     \<lparr>title = ''Backend Developer'', company = ''Acme'', location = ''Not specified'',
      experience = ''Not specified'', salary = ''Not disclosed'', skills = [''Java'', ''SQL''],
      description = [], jobUrl = ''https://www.naukri.com/job-listings-1'',
      postedDate = ''Not specified'', searchKeyword = (latin ''test''),
      scrapedAt = ''2024-01-01T00:00:00.000Z''\<rparr>"
  by code_simp

lemma example_job_third:
  "extractJobCards (latin ''test'') tenCards ! 2 =
     \<lparr>title = ''Backend Developer'', company = ''Acme'', location = ''Not specified'',
      experience = ''Not specified'', salary = ''Not disclosed'', skills = [''Java'', ''SQL''],
      description = [], jobUrl = ''https://www.naukri.com/job-listings-3'',
      postedDate = ''Not specified'', searchKeyword = (latin ''test''),
      scrapedAt = ''2024-01-01T00:00:00.000Z''\<rparr>"
  by code_simp

lemma example_untitled: "extractJobCards (latin ''test'') [exampleCard\<lparr>titleElement := None\<rparr>] = []"
  by code_simp

lemma example_details:
  "extractDetails exampleDocument =
     \<lparr>fullDescription = [], keySkills = [''React'', ''Node''],
      industryTypes = [''IT Services'', ''Consulting''], jobPostedAt = ''Posted: 3 days ago'',
      salaryOffered = ''5-7 LPA'', totalVacancy = ''7''\<rparr>"
  by code_simp

lemma example_visit_ok: "\<not> visitFaults exampleVisit \<and> evaluated exampleVisit = Some exampleDocument"
  by (simp add: visitFaults_def exampleVisit_def)

lemma example_visit_timeout: "visitFaults timeoutVisit"
  by (simp add: visitFaults_def timeoutVisit_def)

lemma example_page_one:
  "pageVisit (latin ''test'') cfg exampleWorld (Suc 0) =
     \<lparr>gotoError = None, cardsAppear = True, evaluatedCards = Inr tenCards,
      detailVisits = (\<lambda>i jobUrl. if i = 2 then timeoutVisit else exampleVisit)\<rparr>"
  by (simp add: pageVisit_def exampleWorld_def)

lemma example_page_two:
  "pageVisit (latin ''test'') cfg exampleWorld 2 =
     \<lparr>gotoError = None, cardsAppear = True,
      evaluatedCards = Inr [exampleCard\<lparr>titleElement := None\<rparr>],
      detailVisits = (\<lambda>i jobUrl. exampleVisit)\<rparr>"
  by (simp add: pageVisit_def exampleWorld_def)

lemma example_page_one_yields: "pageYields (latin ''test'') (pageVisit (latin ''test'') cfg exampleWorld 1)"
  using example_jobs_length
  by (auto simp: example_page_one pageYields_def pageJobs_def hasLoneSurrogate_latin)

lemma example_page_two_stops: "\<not> pageYields (latin ''test'') (pageVisit (latin ''test'') cfg exampleWorld 2)"
  by (simp add: example_page_two pageYields_def pageJobs_def example_untitled)

lemma example_records_length:
  "length (pageRecords (latin ''test'') cfg (pageVisit (latin ''test'') cfg exampleWorld 1)) = 10"
  by (simp add: pageRecords_def pageJobs_def example_page_one example_jobs_length)

section \<open>What the pagination driver raises and returns\<close>

lemma pageYields_no_throw:
  "pageYields keyword (pageVisit keyword cfg world n) \<Longrightarrow> \<not> pageThrows keyword cfg world n"
  by (auto simp: pageYields_def pageJobs_def pageThrows_def urlFaults_iff navigationFaults_def
        extractionFaults_def split: sum.splits)

text \<open>
  C2, as the source has it. \<^verbatim>\<open>scrapeJobs\<close> raises exactly when the first page is visited and
  something inside its \<^verbatim>\<open>try\<close> block throws: building the URL throws (the keyword has a
  lone surrogate), or the page load is rejected (navigation error or timeout), or the
  listing extraction is rejected. When pages 1 to \<open>n - 1\<close> are scraped and page \<open>n\<close>,
  within the cap, is not (a fault on a page after the first, no card within the wait, or
  no listing extracted), the loop ends without error and returns exactly the records of
  pages 1 to \<open>n - 1\<close>.
\<close>

theorem scrapeJobs_raises_on_first_page_fault:
  "(isl (fst (scrapeJobs keyword maxPages cfg world b)) \<longleftrightarrow>
      1 \<le> maxPages \<and>
      (urlFaults keyword cfg 1 \<or>
       navigationFaults (pageVisit keyword cfg world 1) \<or>
       extractionFaults (pageVisit keyword cfg world 1))) \<and>
   (1 \<le> n \<and> n \<le> maxPages \<and>
    (\<forall>k. 1 \<le> k \<and> k < n \<longrightarrow> pageYields keyword (pageVisit keyword cfg world k)) \<and>
    \<not> pageYields keyword (pageVisit keyword cfg world n) \<and>
    \<not> (n = 1 \<and> (urlFaults keyword cfg 1 \<or>
                  navigationFaults (pageVisit keyword cfg world 1) \<or>
                  extractionFaults (pageVisit keyword cfg world 1))) \<longrightarrow>
    fst (scrapeJobs keyword maxPages cfg world b) =
      Inr (concat (map (\<lambda>k. pageRecords keyword cfg (pageVisit keyword cfg world k)) [1..<n])))"
proof (intro conjI impI)
  let ?p = "pageVisit keyword cfg world 1"
  have t: "pageThrows keyword cfg world 1 \<longleftrightarrow>
      urlFaults keyword cfg 1 \<or> navigationFaults ?p \<or> extractionFaults ?p"
    by (simp add: pageThrows_def)
  show "isl (fst (scrapeJobs keyword maxPages cfg world b)) \<longleftrightarrow>
      1 \<le> maxPages \<and> (urlFaults keyword cfg 1 \<or> navigationFaults ?p \<or> extractionFaults ?p)"
  proof (cases "1 \<le> maxPages")
    case False
    then have "maxPages < 1" by simp
    then show ?thesis by (simp add: scrapeJobs_def scrapePages_done)
  next
    case True
    show ?thesis
    proof (cases "pageYields keyword ?p")
      case y: True
      obtain b' where s: "scrapePages keyword maxPages cfg world 1 [] b =
          scrapePages keyword maxPages cfg world (Suc 1) ([] @ pageRecords keyword cfg ?p) b'"
        using scrapePages_step [OF True y] by blast
      have "\<not> isl (fst (scrapePages keyword maxPages cfg world (Suc 1) ([] @ pageRecords keyword cfg ?p) b'))"
        by (rule scrapePages_no_error) simp
      then show ?thesis
        using s pageYields_no_throw [OF y] unfolding t [symmetric] by (simp add: scrapeJobs_def)
    next
      case n: False
      show ?thesis
        using scrapePages_stop [OF True n, of "[]" b] True unfolding t [symmetric]
        by (simp add: scrapeJobs_def)
    qed
  qed
next
  assume a: "1 \<le> n \<and> n \<le> maxPages \<and>
    (\<forall>k. 1 \<le> k \<and> k < n \<longrightarrow> pageYields keyword (pageVisit keyword cfg world k)) \<and>
    \<not> pageYields keyword (pageVisit keyword cfg world n) \<and>
    \<not> (n = 1 \<and> (urlFaults keyword cfg 1 \<or>
                  navigationFaults (pageVisit keyword cfg world 1) \<or>
                  extractionFaults (pageVisit keyword cfg world 1)))"
  then have "fst (scrapePages keyword maxPages cfg world 1 [] b) =
      (if n = 1 \<and> pageThrows keyword cfg world n
       then Inl (Error (''Failed to scrape jobs: '' @ thrownMessage keyword cfg world n))
       else Inr ([] @ concat (map (\<lambda>j. pageRecords keyword cfg (pageVisit keyword cfg world j)) [1..<n])))"
    by (intro scrapePages_run) simp_all
  with a show "fst (scrapeJobs keyword maxPages cfg world b) =
      Inr (concat (map (\<lambda>k. pageRecords keyword cfg (pageVisit keyword cfg world k)) [1..<n]))"
    by (auto simp: scrapeJobs_def pageThrows_def)
qed

text \<open>
  The keyword \<^verbatim>\<open>test\<close> with a cap of two pages: page 1 has ten well-formed cards, page 2
  none. The run returns the ten records of page 1 and raises nothing. With the keyword
  that is one lone surrogate the same run raises on page 1.
\<close>

theorem scrapeJobs_raises_on_first_page_fault_witness:
  "fst (scrapeJobs (latin ''test'') 2 exampleConfig exampleWorld freshBrowser) =
     Inr (pageRecords (latin ''test'') exampleConfig (pageVisit (latin ''test'') exampleConfig exampleWorld 1)) \<and>
   length (pageRecords (latin ''test'') exampleConfig (pageVisit (latin ''test'') exampleConfig exampleWorld 1)) = 10 \<and>
   \<not> isl (fst (scrapeJobs (latin ''test'') 2 exampleConfig exampleWorld freshBrowser)) \<and>
   urlFaults loneSurrogate exampleConfig 1 \<and>
   isl (fst (scrapeJobs loneSurrogate 2 exampleConfig exampleWorld freshBrowser))"
proof -
  have y: "\<forall>k. 1 \<le> k \<and> k < 2 \<longrightarrow> pageYields (latin ''test'') (pageVisit (latin ''test'') exampleConfig exampleWorld k)"
  proof (intro allI impI)
    fix k :: nat assume "1 \<le> k \<and> k < 2"
    then have "k = 1" by simp
    then show "pageYields (latin ''test'') (pageVisit (latin ''test'') exampleConfig exampleWorld k)"
      using example_page_one_yields by simp
  qed
  have u: "[1..<2] = [1::nat]"
    by (simp add: upt_conv_Cons)
  have "fst (scrapeJobs (latin ''test'') 2 exampleConfig exampleWorld freshBrowser) =
     Inr (concat (map (\<lambda>k. pageRecords (latin ''test'') exampleConfig (pageVisit (latin ''test'') exampleConfig exampleWorld k)) [1..<2]))"
    using scrapeJobs_raises_on_first_page_fault [of "latin ''test''" 2 exampleConfig exampleWorld freshBrowser 2]
      y example_page_two_stops by simp
  then have r: "fst (scrapeJobs (latin ''test'') 2 exampleConfig exampleWorld freshBrowser) =
     Inr (pageRecords (latin ''test'') exampleConfig (pageVisit (latin ''test'') exampleConfig exampleWorld 1))"
    unfolding u by simp
  have l: "urlFaults loneSurrogate exampleConfig 1"
    by (simp add: urlFaults_iff hasLoneSurrogate_def loneSurrogate_def isSurrogate_def)
  have e: "isl (fst (scrapeJobs loneSurrogate 2 exampleConfig exampleWorld freshBrowser))"
    using scrapeJobs_raises_on_first_page_fault [of loneSurrogate 2 exampleConfig exampleWorld freshBrowser 1] l
    by simp
  show ?thesis unfolding r using example_records_length l e by simp
qed

text \<open>
  C2 as it is worded fails: on the first page the load succeeds and cards appear, the
  extraction is rejected, and \<^verbatim>\<open>scrapeJobs\<close> raises without any navigation or timeout fault.
\<close>

theorem scrapeJobs_raises_without_navigation_fault:
  "\<not> (isl (fst (scrapeJobs (latin ''test'') 2 exampleConfig brokenWorld freshBrowser)) \<longleftrightarrow>
        navigationFaults (pageVisit (latin ''test'') exampleConfig brokenWorld 1)) \<and>
   fst (scrapeJobs (latin ''test'') 2 exampleConfig brokenWorld freshBrowser) =
     Inl (Error ''Failed to scrape jobs: Execution context was destroyed'')"
proof -
  have p: "pageVisit (latin ''test'') exampleConfig brokenWorld (Suc 0) =
     \<lparr>gotoError = None, cardsAppear = True,
      evaluatedCards = Inl ''Execution context was destroyed'',
      detailVisits = (\<lambda>i jobUrl. exampleVisit)\<rparr>"
    by (simp add: pageVisit_def brokenWorld_def)
  have n: "\<not> pageYields (latin ''test'') (pageVisit (latin ''test'') exampleConfig brokenWorld 1)"
    by (simp add: p pageYields_def pageJobs_def)
  obtain url where u: "buildSearchUrl (latin ''test'') (pageNumber (Suc 0)) (config_experience exampleConfig) = Inr url"
    using hasLoneSurrogate_latin by (rule buildSearchUrl_built)
  have "fst (scrapePages (latin ''test'') 2 exampleConfig brokenWorld 1 [] freshBrowser) =
     Inl (Error ''Failed to scrape jobs: Execution context was destroyed'')"
    using scrapePages_stop [OF _ n, of 2 "[]" freshBrowser]
    by (simp add: p u pageThrows_def thrownMessage_def navigationFaults_def extractionFaults_def
          faultMessage_def)
  then show ?thesis
    by (simp add: scrapeJobs_def p navigationFaults_def)
qed

section \<open>A faulting detail visit is isolated\<close>

text \<open>
  C5, as the source has it. When a detail visit faults, \<^verbatim>\<open>scrapeJobDetails\<close> returns the
  all-default record. The enrichment loop returns one record per listing. The record of a
  listing whose visit faulted keeps the listing's fields, has the description, industries,
  posting date, salary and vacancy count at their sentinels, and has the listing's skills
  as key skills. The record of a listing whose visit succeeded is merged from the
  extraction of its own page. A scraped page is followed by the next page, with its
  records accumulated, whatever its detail visits did.
\<close>

theorem detail_fault_isolated:
  "(visitFaults v \<longrightarrow> fst (scrapeJobDetails b url v) = defaultDetails) \<and>
   length (fst (enrichLoop cs lbl visits 0 jobs b)) = length jobs \<and>
   (i < length jobs \<and> visitFaults (visits i (jobUrl (jobs ! i))) \<longrightarrow>
      jobListing.truncate (fst (enrichLoop cs lbl visits 0 jobs b) ! i) = jobs ! i \<and>
      job_fullDescription (fst (enrichLoop cs lbl visits 0 jobs b) ! i) = [] \<and>
      job_keySkills (fst (enrichLoop cs lbl visits 0 jobs b) ! i) = skills (jobs ! i) \<and>
      job_industryTypes (fst (enrichLoop cs lbl visits 0 jobs b) ! i) = [] \<and>
      job_jobPostedAt (fst (enrichLoop cs lbl visits 0 jobs b) ! i) = ''Not specified'' \<and>
      job_salaryOffered (fst (enrichLoop cs lbl visits 0 jobs b) ! i) = ''Not disclosed'' \<and>
      job_totalVacancy (fst (enrichLoop cs lbl visits 0 jobs b) ! i) = ''Not specified'') \<and>
   (i < length jobs \<and> \<not> visitFaults (visits i (jobUrl (jobs ! i))) \<and>
    evaluated (visits i (jobUrl (jobs ! i))) = Some document \<longrightarrow>
      fst (enrichLoop cs lbl visits 0 jobs b) ! i =
        mergeDetails cs lbl (jobs ! i) (extractDetails document)) \<and>
   (n \<le> maxPages \<and> pageYields keyword (pageVisit keyword cfg world n) \<longrightarrow>
      (\<exists>b'. scrapePages keyword maxPages cfg world n acc b =
            scrapePages keyword maxPages cfg world (Suc n)
              (acc @ pageRecords keyword cfg (pageVisit keyword cfg world n)) b') \<and>
      length (pageRecords keyword cfg (pageVisit keyword cfg world n)) =
        length (pageJobs keyword (pageVisit keyword cfg world n)))"
proof (intro conjI impI)
  assume "visitFaults v"
  then show "fst (scrapeJobDetails b url v) = defaultDetails"
    by (simp add: fst_scrapeJobDetails visitDetails_fault)
next
  show "length (fst (enrichLoop cs lbl visits 0 jobs b)) = length jobs"
    by (rule length_enrichLoop)
next
  assume a: "i < length jobs \<and> visitFaults (visits i (jobUrl (jobs ! i)))"
  then have e: "fst (enrichLoop cs lbl visits 0 jobs b) ! i = mergeDetails cs lbl (jobs ! i) defaultDetails"
    by (simp add: nth_enrichLoop visitDetails_fault)
  show "jobListing.truncate (fst (enrichLoop cs lbl visits 0 jobs b) ! i) = jobs ! i"
    unfolding e by (rule mergeDetails_listing)
  show "job_fullDescription (fst (enrichLoop cs lbl visits 0 jobs b) ! i) = []"
    unfolding e by (simp add: mergeDetails_default)
  show "job_keySkills (fst (enrichLoop cs lbl visits 0 jobs b) ! i) = skills (jobs ! i)"
    unfolding e by (simp add: mergeDetails_default)
  show "job_industryTypes (fst (enrichLoop cs lbl visits 0 jobs b) ! i) = []"
    unfolding e by (simp add: mergeDetails_default)
  show "job_jobPostedAt (fst (enrichLoop cs lbl visits 0 jobs b) ! i) = ''Not specified''"
    unfolding e by (simp add: mergeDetails_default)
  show "job_salaryOffered (fst (enrichLoop cs lbl visits 0 jobs b) ! i) = ''Not disclosed''"
    unfolding e by (simp add: mergeDetails_default)
  show "job_totalVacancy (fst (enrichLoop cs lbl visits 0 jobs b) ! i) = ''Not specified''"
    unfolding e by (simp add: mergeDetails_default)
next
  assume "i < length jobs \<and> \<not> visitFaults (visits i (jobUrl (jobs ! i))) \<and>
    evaluated (visits i (jobUrl (jobs ! i))) = Some document"
  then show "fst (enrichLoop cs lbl visits 0 jobs b) ! i =
        mergeDetails cs lbl (jobs ! i) (extractDetails document)"
    by (simp add: nth_enrichLoop visitDetails_loaded)
next
  assume "n \<le> maxPages \<and> pageYields keyword (pageVisit keyword cfg world n)"
  then show "\<exists>b'. scrapePages keyword maxPages cfg world n acc b =
            scrapePages keyword maxPages cfg world (Suc n)
              (acc @ pageRecords keyword cfg (pageVisit keyword cfg world n)) b'"
    by (simp add: scrapePages_step)
next
  show "length (pageRecords keyword cfg (pageVisit keyword cfg world n)) =
        length (pageJobs keyword (pageVisit keyword cfg world n))"
    by (simp add: pageRecords_def)
qed

text \<open>
  Ten listings, the detail visit of the third times out: ten records; the third with the
  sentinels and the listing's skills as key skills, the first enriched from its page.
\<close>

theorem detail_fault_isolated_witness:
  "length (fst (enrichLoop [''java''] [] (\<lambda>i jobUrl. if i = 2 then timeoutVisit else exampleVisit) 0
             (extractJobCards (latin ''test'') tenCards) freshBrowser)) = 10 \<and>
   job_totalVacancy (fst (enrichLoop [''java''] [] (\<lambda>i jobUrl. if i = 2 then timeoutVisit else exampleVisit) 0
             (extractJobCards (latin ''test'') tenCards) freshBrowser) ! 2) = ''Not specified'' \<and>
   job_salaryOffered (fst (enrichLoop [''java''] [] (\<lambda>i jobUrl. if i = 2 then timeoutVisit else exampleVisit) 0
             (extractJobCards (latin ''test'') tenCards) freshBrowser) ! 2) = ''Not disclosed'' \<and>
   job_keySkills (fst (enrichLoop [''java''] [] (\<lambda>i jobUrl. if i = 2 then timeoutVisit else exampleVisit) 0
             (extractJobCards (latin ''test'') tenCards) freshBrowser) ! 2) = [''Java'', ''SQL''] \<and>
   job_totalVacancy (fst (enrichLoop [''java''] [] (\<lambda>i jobUrl. if i = 2 then timeoutVisit else exampleVisit) 0
             (extractJobCards (latin ''test'') tenCards) freshBrowser) ! 0) = ''7'' \<and>
   job_salaryOffered (fst (enrichLoop [''java''] [] (\<lambda>i jobUrl. if i = 2 then timeoutVisit else exampleVisit) 0
             (extractJobCards (latin ''test'') tenCards) freshBrowser) ! 0) = ''5-7 LPA'' \<and>
   job_keySkills (fst (enrichLoop [''java''] [] (\<lambda>i jobUrl. if i = 2 then timeoutVisit else exampleVisit) 0
             (extractJobCards (latin ''test'') tenCards) freshBrowser) ! 0) = [''React'', ''Node'']"
proof -
  let ?visits = "\<lambda>(i::nat) (jobUrl::string). if i = 2 then timeoutVisit else exampleVisit"
  let ?jobs = "extractJobCards (latin ''test'') tenCards"
  let ?out = "fst (enrichLoop [''java''] [] ?visits 0 ?jobs freshBrowser)"
  note t = detail_fault_isolated [of timeoutVisit freshBrowser "[]" "[''java'']" "[]" ?visits ?jobs 2
      exampleDocument 0 0 "[]" exampleConfig exampleWorld "[]"]
  note f = detail_fault_isolated [of timeoutVisit freshBrowser "[]" "[''java'']" "[]" ?visits ?jobs 0
      exampleDocument 0 0 "[]" exampleConfig exampleWorld "[]"]
  have l: "length ?out = 10"
    using t by (simp add: example_jobs_length)
  have third: "job_totalVacancy (?out ! 2) = ''Not specified'' \<and>
      job_salaryOffered (?out ! 2) = ''Not disclosed'' \<and> job_keySkills (?out ! 2) = [''Java'', ''SQL'']"
    using t example_visit_timeout by (simp add: example_jobs_length example_job_third)
  have "?out ! 0 = mergeDetails [''java''] [] (?jobs ! 0) (extractDetails exampleDocument)"
    using f example_visit_ok by (simp add: example_jobs_length)
  then have first: "job_totalVacancy (?out ! 0) = ''7'' \<and> job_salaryOffered (?out ! 0) = ''5-7 LPA'' \<and>
      job_keySkills (?out ! 0) = [''React'', ''Node'']"
    by (simp add: example_details mergeDetails_def jobListing.defs enrichedJob.defs orElse_def Let_def)
  show ?thesis using l third first by simp
qed

text \<open>
  C5 as it is worded fails at the key skills: after a faulting visit the merged record
  has the listing's skills there, not the empty default.
\<close>

theorem detail_fault_keySkills_not_default:
  "visitFaults timeoutVisit \<and>
   job_keySkills (fst (enrichLoop [''java''] [] (\<lambda>i jobUrl. timeoutVisit) 0
                    (extractJobCards (latin ''test'') tenCards) freshBrowser) ! 2) = [''Java'', ''SQL''] \<and>
   keySkills defaultDetails = []"
proof -
  have "fst (enrichLoop [''java''] [] (\<lambda>i jobUrl. timeoutVisit) 0
                    (extractJobCards (latin ''test'') tenCards) freshBrowser) ! 2 =
        mergeDetails [''java''] [] (extractJobCards (latin ''test'') tenCards ! 2) defaultDetails"
    by (simp add: nth_enrichLoop example_jobs_length visitDetails_fault example_visit_timeout)
  then show ?thesis
    by (simp add: example_visit_timeout mergeDetails_keySkills example_job_third defaultDetails_def)
qed

section \<open>Key skills fall back to the listing's skills\<close>

text \<open>
  C10. With detail scraping on, the merged key skills of a job are the key skills of the
  detail pass when that list is not empty, and the listing's skills when it is empty, as
  it is after every fault. So the merged key skills are empty only when the detail pass
  and the listing card both gave no skill.
\<close>

theorem keySkills_fall_back:
  "i < length jobs \<longrightarrow>
     (keySkills (fst (scrapeJobDetails b' (jobUrl (jobs ! i)) (visits i (jobUrl (jobs ! i))))) = [] \<longrightarrow>
        job_keySkills (fst (enrichLoop cs lbl visits 0 jobs b) ! i) = skills (jobs ! i)) \<and>
     (keySkills (fst (scrapeJobDetails b' (jobUrl (jobs ! i)) (visits i (jobUrl (jobs ! i))))) \<noteq> [] \<longrightarrow>
        job_keySkills (fst (enrichLoop cs lbl visits 0 jobs b) ! i) =
          keySkills (fst (scrapeJobDetails b' (jobUrl (jobs ! i)) (visits i (jobUrl (jobs ! i)))))) \<and>
     (visitFaults (visits i (jobUrl (jobs ! i))) \<longrightarrow>
        job_keySkills (fst (enrichLoop cs lbl visits 0 jobs b) ! i) = skills (jobs ! i)) \<and>
     (job_keySkills (fst (enrichLoop cs lbl visits 0 jobs b) ! i) = [] \<longrightarrow>
        keySkills (fst (scrapeJobDetails b' (jobUrl (jobs ! i)) (visits i (jobUrl (jobs ! i))))) = [] \<and>
        skills (jobs ! i) = [])"
proof
  assume i: "i < length jobs"
  let ?v = "visits i (jobUrl (jobs ! i))"
  have d: "fst (scrapeJobDetails b' (jobUrl (jobs ! i)) ?v) = visitDetails ?v"
    by (rule fst_scrapeJobDetails)
  have k: "job_keySkills (fst (enrichLoop cs lbl visits 0 jobs b) ! i) =
      (if keySkills (visitDetails ?v) = [] then skills (jobs ! i) else keySkills (visitDetails ?v))"
    using i by (simp add: nth_enrichLoop mergeDetails_keySkills)
  have f: "visitFaults ?v \<Longrightarrow> keySkills (visitDetails ?v) = []"
    by (simp add: visitDetails_fault defaultDetails_def)
  show "(keySkills (fst (scrapeJobDetails b' (jobUrl (jobs ! i)) ?v)) = [] \<longrightarrow>
        job_keySkills (fst (enrichLoop cs lbl visits 0 jobs b) ! i) = skills (jobs ! i)) \<and>
     (keySkills (fst (scrapeJobDetails b' (jobUrl (jobs ! i)) ?v)) \<noteq> [] \<longrightarrow>
        job_keySkills (fst (enrichLoop cs lbl visits 0 jobs b) ! i) =
          keySkills (fst (scrapeJobDetails b' (jobUrl (jobs ! i)) ?v))) \<and>
     (visitFaults ?v \<longrightarrow>
        job_keySkills (fst (enrichLoop cs lbl visits 0 jobs b) ! i) = skills (jobs ! i)) \<and>
     (job_keySkills (fst (enrichLoop cs lbl visits 0 jobs b) ! i) = [] \<longrightarrow>
        keySkills (fst (scrapeJobDetails b' (jobUrl (jobs ! i)) ?v)) = [] \<and>
        skills (jobs ! i) = [])"
    unfolding d k using f by (auto split: if_splits)
qed

text \<open>
  A single listing with the skills Java and SQL: after a timeout its key skills are Java
  and SQL; after a visit that finds React and Node they are React and Node.
\<close>

theorem keySkills_fall_back_witness:
  "keySkills (fst (scrapeJobDetails freshBrowser
      (jobUrl (extractJobCards (latin ''test'') tenCards ! 2)) timeoutVisit)) = [] \<and>
   job_keySkills (fst (enrichLoop [] [] (\<lambda>i jobUrl. if i = 2 then timeoutVisit else exampleVisit) 0
      (extractJobCards (latin ''test'') tenCards) freshBrowser) ! 2) = [''Java'', ''SQL''] \<and>
   job_keySkills (fst (enrichLoop [] [] (\<lambda>i jobUrl. if i = 2 then timeoutVisit else exampleVisit) 0
      (extractJobCards (latin ''test'') tenCards) freshBrowser) ! 0) = [''React'', ''Node'']"
proof -
  let ?visits = "\<lambda>(i::nat) (jobUrl::string). if i = 2 then timeoutVisit else exampleVisit"
  let ?jobs = "extractJobCards (latin ''test'') tenCards"
  have d2: "fst (scrapeJobDetails freshBrowser u timeoutVisit) = defaultDetails" for u
    by (simp add: fst_scrapeJobDetails visitDetails_fault example_visit_timeout)
  have d0: "fst (scrapeJobDetails freshBrowser u exampleVisit) = extractDetails exampleDocument" for u
    using example_visit_ok by (simp add: fst_scrapeJobDetails visitDetails_loaded)
  show ?thesis
    using keySkills_fall_back [of 2 ?jobs freshBrowser ?visits "[]" "[]" freshBrowser]
      keySkills_fall_back [of 0 ?jobs freshBrowser ?visits "[]" "[]" freshBrowser]
    by (simp add: d2 d0 example_jobs_length example_job_third example_details defaultDetails_def)
qed

section \<open>Matched skills are drawn from the job\<close>

text \<open>
  C7. Every element of \<^verbatim>\<open>matchSkills(J, C)\<close> is an element of \<open>J\<close>. Hence in every record
  that \<^verbatim>\<open>scrapeJobs\<close> returns, with or without detail scraping, the matched skills are
  among the job's listing skills and key skills.
\<close>

theorem matchedSkills_drawn_from_job:
  "set (matchSkills (Some J) C) \<subseteq> set J \<and> matchSkills None C = [] \<and>
   (fst (scrapeJobs keyword maxPages cfg world b) = Inr jobs \<longrightarrow>
      (\<forall>job\<in>set jobs. set (matchedSkills job) \<subseteq> set (skills job) \<union> set (job_keySkills job)))"
proof (intro conjI impI)
  show "set (matchSkills (Some J) C) \<subseteq> set J"
    by (rule matchSkills_subset)
  show "matchSkills None C = []"
    by (simp add: matchSkills_def split: option.splits)
next
  assume "fst (scrapeJobs keyword maxPages cfg world b) = Inr jobs"
  then have r: "fst (scrapePages keyword maxPages cfg world 1 [] b) = Inr jobs"
    by (simp add: scrapeJobs_def)
  show "\<forall>job\<in>set jobs. set (matchedSkills job) \<subseteq> set (skills job) \<union> set (job_keySkills job)"
    by (rule scrapePages_records [OF _ _ r]) (simp_all add: pageRecords_matched)
qed

lemma example_run:
  "fst (scrapeJobs (latin ''test'') 2 cfg exampleWorld freshBrowser) =
     Inr (pageRecords (latin ''test'') cfg (pageVisit (latin ''test'') cfg exampleWorld 1))"
proof -
  have y: "\<forall>j. 1 \<le> j \<and> j < 2 \<longrightarrow> pageYields (latin ''test'') (pageVisit (latin ''test'') cfg exampleWorld j)"
  proof (intro allI impI)
    fix j :: nat assume "1 \<le> j \<and> j < 2"
    then have "j = 1" by simp
    then show "pageYields (latin ''test'') (pageVisit (latin ''test'') cfg exampleWorld j)"
      using example_page_one_yields by simp
  qed
  have "fst (scrapePages (latin ''test'') 2 cfg exampleWorld 1 [] freshBrowser) =
      (if (2::nat) = 1 \<and> pageThrows (latin ''test'') cfg exampleWorld 2
       then Inl (Error (''Failed to scrape jobs: '' @ thrownMessage (latin ''test'') cfg exampleWorld 2))
       else Inr ([] @ concat (map (\<lambda>j. pageRecords (latin ''test'') cfg (pageVisit (latin ''test'') cfg exampleWorld j)) [1..<2])))"
    using y example_page_two_stops by (intro scrapePages_run) simp_all
  then show ?thesis
    by (simp add: scrapeJobs_def upt_conv_Cons)
qed

lemma example_record_first:
  "pageRecords (latin ''test'') exampleConfig (pageVisit (latin ''test'') exampleConfig exampleWorld 1) ! 0 =
     mergeDetails [''java''] [] (extractJobCards (latin ''test'') tenCards ! 0) (extractDetails exampleDocument)"
proof -
  have v: "visitDetails exampleVisit = extractDetails exampleDocument"
    using example_visit_ok by (simp add: visitDetails_loaded)
  have c: "shouldScrapeDetails exampleConfig" "configSkillsOf exampleConfig = [''java'']"
    "experienceLabel (config_experience exampleConfig) = []"
    by (simp_all add: shouldScrapeDetails_def configSkillsOf_def experienceLabel_def exampleConfig_def)
  show ?thesis
    by (simp add: pageRecords_def pageJobs_def example_page_one c v example_jobs_length
          nth_enumerate_eq)
qed

lemma example_matched_first:
  "matchedSkills (mergeDetails [''java''] [] (extractJobCards (latin ''test'') tenCards ! 0)
     (extractDetails exampleDocument)) = [''Java'']"
  unfolding example_job_first example_details by code_simp

text \<open>
  The first record of the example search: of its skills Java, SQL, React and Node, the
  configured skill \<^verbatim>\<open>java\<close> matches Java.
\<close>

theorem matchedSkills_drawn_from_job_witness:
  "set (matchSkills (Some [''Java'', ''SQL'', ''React'', ''Node'']) (Some [''java'']))
     \<subseteq> set [''Java'', ''SQL'', ''React'', ''Node''] \<and>
   matchedSkills (pageRecords (latin ''test'') exampleConfig (pageVisit (latin ''test'') exampleConfig exampleWorld 1) ! 0) =
     [''Java''] \<and>
   set (matchedSkills (pageRecords (latin ''test'') exampleConfig (pageVisit (latin ''test'') exampleConfig exampleWorld 1) ! 0))
     \<subseteq> set (skills (pageRecords (latin ''test'') exampleConfig (pageVisit (latin ''test'') exampleConfig exampleWorld 1) ! 0)) \<union>
       set (job_keySkills (pageRecords (latin ''test'') exampleConfig (pageVisit (latin ''test'') exampleConfig exampleWorld 1) ! 0))"
proof -
  let ?records = "pageRecords (latin ''test'') exampleConfig (pageVisit (latin ''test'') exampleConfig exampleWorld 1)"
  note t = matchedSkills_drawn_from_job [of "[''Java'', ''SQL'', ''React'', ''Node'']" "Some [''java'']"
      "(latin ''test'')" 2 exampleConfig exampleWorld freshBrowser ?records]
  have m: "?records ! 0 \<in> set ?records"
    using example_records_length by (intro nth_mem) simp
  have "\<forall>job\<in>set ?records. set (matchedSkills job) \<subseteq> set (skills job) \<union> set (job_keySkills job)"
    using t example_run by blast
  then have s: "set (matchedSkills (?records ! 0))
     \<subseteq> set (skills (?records ! 0)) \<union> set (job_keySkills (?records ! 0))"
    using m by blast
  have f: "set (matchSkills (Some [''Java'', ''SQL'', ''React'', ''Node'']) (Some [''java'']))
     \<subseteq> set [''Java'', ''SQL'', ''React'', ''Node'']"
    using t by blast
  have v: "matchedSkills (?records ! 0) = [''Java'']"
    by (simp only: example_record_first example_matched_first)
  show ?thesis using s f v by blast
qed

section \<open>No configured skill, no matched skill\<close>

lemma pageRecords_unmatched:
  assumes "configSkillsOf cfg = []" and "job \<in> set (pageRecords keyword cfg v)"
  shows "matchedSkills job = []"
proof (cases "shouldScrapeDetails cfg")
  case True
  with assms obtain l d where
    "job = mergeDetails [] (experienceLabel (config_experience cfg)) l d"
    by (auto simp: pageRecords_def)
  then show ?thesis
    by (simp add: mergeDetails_def jobListing.defs enrichedJob.defs Let_def matchSkills_def)
next
  case False
  with assms obtain l where
    "job = withoutDetails [] (experienceLabel (config_experience cfg)) l"
    by (auto simp: pageRecords_def)
  then show ?thesis
    by (simp add: withoutDetails_def jobListing.defs enrichedJob.defs matchSkills_def)
qed

text \<open>
  C6. If either list is empty or absent, \<^verbatim>\<open>matchSkills\<close> returns the empty list. So with
  no configured skill (the list empty or absent in the configuration) every record that
  \<^verbatim>\<open>scrapeJobs\<close> returns has no matched skill, whatever the job's skills.
\<close>

theorem matchSkills_empty:
  "(jobSkills = None \<or> jobSkills = Some [] \<or> configSkills = None \<or> configSkills = Some [] \<longrightarrow>
      matchSkills jobSkills configSkills = []) \<and>
   ((config_skills cfg = None \<or> config_skills cfg = Some []) \<and>
    fst (scrapeJobs keyword maxPages cfg world b) = Inr jobs \<longrightarrow>
      (\<forall>job\<in>set jobs. matchedSkills job = []))"
proof (intro conjI impI)
  assume "jobSkills = None \<or> jobSkills = Some [] \<or> configSkills = None \<or> configSkills = Some []"
  then show "matchSkills jobSkills configSkills = []"
    by (auto simp: matchSkills_def split: option.splits)
next
  assume a: "(config_skills cfg = None \<or> config_skills cfg = Some []) \<and>
    fst (scrapeJobs keyword maxPages cfg world b) = Inr jobs"
  then have c: "configSkillsOf cfg = []"
    by (auto simp: configSkillsOf_def)
  from a have r: "fst (scrapePages keyword maxPages cfg world 1 [] b) = Inr jobs"
    by (simp add: scrapeJobs_def)
  show "\<forall>job\<in>set jobs. matchedSkills job = []"
    by (rule scrapePages_records [OF _ _ r]) (simp_all add: pageRecords_unmatched [OF c])
qed

text \<open>
  Java and React against no configured skill, and the example search run with an empty
  list of configured skills: its first record has no matched skill.
\<close>

theorem matchSkills_empty_witness:
  "matchSkills (Some [''Java'', ''React'']) (Some []) = [] \<and>
   matchSkills (Some [''Java'', ''React'']) None = [] \<and>
   matchSkills (Some []) (Some [''java'']) = [] \<and>
   matchSkills None (Some [''java'']) = [] \<and>
   fst (scrapeJobs (latin ''test'') 2 (exampleConfig\<lparr>config_skills := Some []\<rparr>) exampleWorld freshBrowser) =
     Inr (pageRecords (latin ''test'') (exampleConfig\<lparr>config_skills := Some []\<rparr>)
            (pageVisit (latin ''test'') (exampleConfig\<lparr>config_skills := Some []\<rparr>) exampleWorld 1)) \<and>
   matchedSkills (pageRecords (latin ''test'') (exampleConfig\<lparr>config_skills := Some []\<rparr>)
            (pageVisit (latin ''test'') (exampleConfig\<lparr>config_skills := Some []\<rparr>) exampleWorld 1) ! 0) = []"
proof -
  let ?cfg = "exampleConfig\<lparr>config_skills := Some []\<rparr>"
  let ?records = "pageRecords (latin ''test'') ?cfg (pageVisit (latin ''test'') ?cfg exampleWorld 1)"
  have r: "fst (scrapeJobs (latin ''test'') 2 ?cfg exampleWorld freshBrowser) = Inr ?records"
    by (rule example_run)
  have m: "?records ! 0 \<in> set ?records"
    using example_records_length [of ?cfg] by (intro nth_mem) simp
  have "\<forall>job\<in>set ?records. matchedSkills job = []"
    using matchSkills_empty [of None None ?cfg "(latin ''test'')" 2 exampleWorld freshBrowser ?records] r
    by simp
  then have z: "matchedSkills (?records ! 0) = []"
    using m by blast
  show ?thesis
    using matchSkills_empty [of "Some [''Java'', ''React'']" "Some []"]
      matchSkills_empty [of "Some [''Java'', ''React'']" None]
      matchSkills_empty [of "Some []" "Some [''java'']"]
      matchSkills_empty [of None "Some [''java'']"]
      r z
    by simp
qed

end
